theory Spec2Isabelle
  imports Complex_Main
begin

section \<open>Python values\<close>

text \<open>
  The extraction pipeline of \<^verbatim>\<open>rfp/utils.py\<close> works on whatever
  \<^verbatim>\<open>json.loads\<close> returns, so the model starts from the dynamic values of Python
  that a JSON document can decode to.  A Python \<^verbatim>\<open>str\<close> is a \<open>string\<close>, one
  character per code point (code points below 256).  A Python \<^verbatim>\<open>float\<close> is a
  finite rational (every finite double is one), an infinity or NaN; the sign of zero is
  not kept.
\<close>

datatype pyfloat = Finite rat | PosInf | NegInf | NaN

datatype json =
    JNull
  | JBool bool
  | JInt int
  | JFloat pyfloat
  | JStr string
  | JList "json list"
  | JDict "(string \<times> json) list"

text \<open>An exception is its class name (\<^verbatim>\<open>type(e).__name__\<close>) and its message (\<^verbatim>\<open>str(e)\<close>).\<close>

datatype pyexc = PyExc (exc_type: string) (exc_msg: string)

text \<open>
  The parts of the Python runtime and standard library that the repository calls but
  does not define are parameters of the model: the JSON parser, the parsers behind
  \<^verbatim>\<open>float(str)\<close> and \<^verbatim>\<open>int(str)\<close>, \<^verbatim>\<open>str\<close> of a value that is not
  already a string, \<^verbatim>\<open>datetime.fromisoformat\<close> on a string (does it parse?), and the
  message text CPython puts into an exception it raises itself (by class name and
  offending operand).
\<close>

record builtins =
  json_loads :: "string \<Rightarrow> pyexc + json"
  float_str :: "string \<Rightarrow> pyfloat option"
  int_str :: "string \<Rightarrow> int option"
  str_other :: "json \<Rightarrow> string"
  fromisoformat_ok :: "string \<Rightarrow> bool"
  message :: "string \<Rightarrow> json \<Rightarrow> string"

definition raise :: "builtins \<Rightarrow> string \<Rightarrow> json \<Rightarrow> pyexc + 'a" where
  "raise env cls v = Inl (PyExc cls (message env cls v))"

text \<open>\<^verbatim>\<open>except (ValueError, TypeError)\<close>: the classes the two inner handlers catch.\<close>

definition value_or_type_error :: "pyexc \<Rightarrow> bool" where
  "value_or_type_error e \<longleftrightarrow> exc_type e = ''ValueError'' \<or> exc_type e = ''TypeError''"

subsection \<open>Truthiness, \<^verbatim>\<open>dict.get\<close>, \<^verbatim>\<open>str\<close>\<close>

fun truthy :: "json \<Rightarrow> bool" where
  "truthy JNull = False"
| "truthy (JBool b) = b"
| "truthy (JInt n) = (n \<noteq> 0)"
| "truthy (JFloat f) = (f \<noteq> Finite 0)"
| "truthy (JStr s) = (s \<noteq> [])"
| "truthy (JList xs) = (xs \<noteq> [])"
| "truthy (JDict kvs) = (kvs \<noteq> [])"

text \<open>\<^verbatim>\<open>a or b\<close>\<close>

definition py_or :: "json \<Rightarrow> json \<Rightarrow> json" where
  "py_or a b = (if truthy a then a else b)"

text \<open>\<^verbatim>\<open>d.get(k, default)\<close> on a dict.\<close>

definition get_default :: "(string \<times> json) list \<Rightarrow> string \<Rightarrow> json \<Rightarrow> json" where
  "get_default kvs k d = (case map_of kvs k of Some v \<Rightarrow> v | None \<Rightarrow> d)"

text \<open>
  \<^verbatim>\<open>v.get(k, default)\<close> on any decoded value: only a dict has the method, every
  other value raises AttributeError.
\<close>

definition dict_get :: "builtins \<Rightarrow> json \<Rightarrow> string \<Rightarrow> json \<Rightarrow> pyexc + json" where
  "dict_get env v k d =
     (case v of JDict kvs \<Rightarrow> Inr (get_default kvs k d)
              | _ \<Rightarrow> raise env ''AttributeError'' v)"

definition py_str :: "builtins \<Rightarrow> json \<Rightarrow> string" where
  "py_str env v = (case v of JStr s \<Rightarrow> s | _ \<Rightarrow> str_other env v)"

subsection \<open>\<^verbatim>\<open>float(x)\<close> and \<^verbatim>\<open>int(x)\<close>\<close>

text \<open>
  \<^verbatim>\<open>float(n)\<close> of an int rounds to the nearest double, ties to even, with a 53-bit
  significand, and raises OverflowError when the rounded value does not fit
  (it would be \<open>2 ^ 1024\<close> or more).
\<close>

fun bit_length :: "nat \<Rightarrow> nat" where
  "bit_length n = (if n = 0 then 0 else Suc (bit_length (n div 2)))"

declare bit_length.simps [simp del]

definition round_half_even :: "nat \<Rightarrow> nat \<Rightarrow> nat" where
  "round_half_even a e =
     (let q = a div 2 ^ e; r = a mod 2 ^ e
      in if e = 0 then a
         else if 2 * r > 2 ^ e \<or> (2 * r = 2 ^ e \<and> odd q) then (q + 1) * 2 ^ e
         else q * 2 ^ e)"

definition double_of_int :: "int \<Rightarrow> pyfloat option" where
  "double_of_int n =
     (let a = nat \<bar>n\<bar>;
          m = round_half_even a (bit_length a - 53)
      in if m \<ge> 2 ^ 1024 then None
         else Some (Finite (if n < 0 then - of_nat m else of_nat m)))"

definition py_float :: "builtins \<Rightarrow> json \<Rightarrow> pyexc + pyfloat" where
  "py_float env v =
     (case v of
        JNull \<Rightarrow> raise env ''TypeError'' v
      | JBool b \<Rightarrow> Inr (Finite (if b then 1 else 0))
      | JInt n \<Rightarrow> (case double_of_int n of Some f \<Rightarrow> Inr f
                                        | None \<Rightarrow> raise env ''OverflowError'' v)
      | JFloat f \<Rightarrow> Inr f
      | JStr s \<Rightarrow> (case float_str env s of Some f \<Rightarrow> Inr f
                                       | None \<Rightarrow> raise env ''ValueError'' v)
      | JList _ \<Rightarrow> raise env ''TypeError'' v
      | JDict _ \<Rightarrow> raise env ''TypeError'' v)"

text \<open>\<^verbatim>\<open>int(x)\<close>: a float is truncated towards zero; an infinity overflows, NaN is a ValueError.\<close>

definition trunc_rat :: "rat \<Rightarrow> int" where
  "trunc_rat r = (if r \<ge> 0 then \<lfloor>r\<rfloor> else - \<lfloor>- r\<rfloor>)"

definition py_int :: "builtins \<Rightarrow> json \<Rightarrow> pyexc + int" where
  "py_int env v =
     (case v of
        JNull \<Rightarrow> raise env ''TypeError'' v
      | JBool b \<Rightarrow> Inr (if b then 1 else 0)
      | JInt n \<Rightarrow> Inr n
      | JFloat f \<Rightarrow> (case f of Finite r \<Rightarrow> Inr (trunc_rat r)
                              | NaN \<Rightarrow> raise env ''ValueError'' v
                              | _ \<Rightarrow> raise env ''OverflowError'' v)
      | JStr s \<Rightarrow> (case int_str env s of Some n \<Rightarrow> Inr n
                                     | None \<Rightarrow> raise env ''ValueError'' v)
      | JList _ \<Rightarrow> raise env ''TypeError'' v
      | JDict _ \<Rightarrow> raise env ''TypeError'' v)"

section \<open>\<^verbatim>\<open>rfp/views.py\<close>: \<^verbatim>\<open>_parse_quantity\<close>\<close>

text \<open>
  \<^verbatim>\<open>
  try:
      qty = int(quantity_value)
      return max(1, qty)
  except (ValueError, TypeError):
      return 1
  \<close>
  An exception of another class leaves the function.
\<close>

definition parse_quantity :: "builtins \<Rightarrow> json \<Rightarrow> pyexc + int" where
  "parse_quantity env quantity_value =
     (case py_int env quantity_value of
        Inr qty \<Rightarrow> Inr (max 1 qty)
      | Inl e \<Rightarrow> if value_or_type_error e then Inr 1 else Inl e)"

section \<open>\<^verbatim>\<open>rfp/utils.py\<close>: the extraction engine\<close>

subsection \<open>String helpers\<close>

text \<open>
  \<^verbatim>\<open>str.isspace\<close> for one character: the code points below 256 that Python counts
  as whitespace are 9 to 13, 28 to 32, 133 and 160.
\<close>

definition py_isspace :: "char \<Rightarrow> bool" where
  "py_isspace c =
     (let n = (of_char c :: nat)
      in (9 \<le> n \<and> n \<le> 13) \<or> (28 \<le> n \<and> n \<le> 32) \<or> n = 133 \<or> n = 160)"

definition lstrip :: "string \<Rightarrow> string" where
  "lstrip s = dropWhile py_isspace s"

definition rstrip :: "string \<Rightarrow> string" where
  "rstrip s = rev (dropWhile py_isspace (rev s))"

definition strip :: "string \<Rightarrow> string" where
  "strip s = rstrip (lstrip s)"

definition startswith :: "string \<Rightarrow> string \<Rightarrow> bool" where
  "startswith s p \<longleftrightarrow> take (length p) s = p"

definition endswith :: "string \<Rightarrow> string \<Rightarrow> bool" where
  "endswith s p \<longleftrightarrow> length p \<le> length s \<and> drop (length s - length p) s = p"

definition fence :: string where
  "fence = [CHR 0x60, CHR 0x60, CHR 0x60]"

definition fence_json :: string where
  "fence_json = fence @ ''json''"

text \<open>
  Lines 131 to 138 (and 309 to 316, the same text), with \<open>fence\<close> for the three
  backquotes:
  \<^verbatim>\<open>
  response_text = response.text.strip()
  if response_text.startswith(fence + 'json'):
      response_text = response_text[7:]
  if response_text.startswith(fence):
      response_text = response_text[3:]
  if response_text.endswith(fence):
      response_text = response_text[:-3]
  response_text = response_text.strip()
  \<close>
\<close>

definition clean_response :: "string \<Rightarrow> string" where
  "clean_response text =
     (let r0 = strip text;
          r1 = (if startswith r0 fence_json then drop 7 r0 else r0);
          r2 = (if startswith r1 fence then drop 3 r1 else r1);
          r3 = (if endswith r2 fence then take (length r2 - 3) r2 else r2)
      in strip r3)"

subsection \<open>The collaborators: configuration and the remote model\<close>

text \<open>
  \<^verbatim>\<open>os.getenv('GEMINI_API_KEY')\<close> is a \<open>string option\<close>.  Everything between
  \<^verbatim>\<open>genai.configure\<close> and reading \<^verbatim>\<open>response.text\<close> is the remote collaborator:
  given the caller's text (the prompt is built from it) it either raises, or returns a
  response object that is falsy, or one whose text is \<^verbatim>\<open>None\<close> or a string.
\<close>

datatype response = NoResponse | Response "string option"

datatype remote_outcome = RemoteRaises pyexc | RemoteReturns response

text \<open>\<^verbatim>\<open>not response or not response.text\<close> is false exactly on a non-empty text.\<close>

fun response_text :: "response \<Rightarrow> string option" where
  "response_text NoResponse = None"
| "response_text (Response None) = None"
| "response_text (Response (Some t)) = (if t = [] then None else Some t)"

definition key_missing :: "string option \<Rightarrow> bool" where
  "key_missing api_key \<longleftrightarrow> (case api_key of None \<Rightarrow> True | Some k \<Rightarrow> k = [])"

subsection \<open>Field normalization\<close>

text \<open>
  Lines 165 to 169 for budget and 341 to 345 for price:
  \<^verbatim>\<open>
  if result['budget'] is not None:
      try:
          result['budget'] = float(result['budget'])
      except (ValueError, TypeError):
          result['budget'] = None
  \<close>
  The result is the new value of the field, or the exception that leaves the block.
\<close>

definition validate_number :: "builtins \<Rightarrow> json \<Rightarrow> pyexc + pyfloat option" where
  "validate_number env v =
     (if v = JNull then Inr None
      else case py_float env v of
             Inr f \<Rightarrow> Inr (Some f)
           | Inl e \<Rightarrow> if value_or_type_error e then Inr None else Inl e)"

text \<open>
  Lines 172 to 176:
  \<^verbatim>\<open>
  if result['deadline']:
      try:
          datetime.fromisoformat(result['deadline'])
      except (ValueError, TypeError):
          result['deadline'] = None
  \<close>
  \<^verbatim>\<open>fromisoformat\<close> raises TypeError on anything that is not a string and
  ValueError on a string it cannot parse.
\<close>

definition validate_deadline :: "builtins \<Rightarrow> json \<Rightarrow> json" where
  "validate_deadline env v =
     (if truthy v then
        (case v of JStr s \<Rightarrow> if fromisoformat_ok env s then v else JNull
                 | _ \<Rightarrow> JNull)
      else v)"

record item =
  name :: string
  quantity :: int
  specifications :: string

text \<open>
  Lines 181 to 187, one round of the loop: \<open>None\<close> when the entry is skipped.
  \<^verbatim>\<open>
  if isinstance(item, dict) and 'name' in item:
      validated_item = {
          'name': str(item.get('name', '')),
          'quantity': int(item.get('quantity', 1)),
          'specifications': str(item.get('specifications', ''))
      }
      validated_items.append(validated_item)
  \<close>
\<close>

definition validate_item :: "builtins \<Rightarrow> json \<Rightarrow> pyexc + item option" where
  "validate_item env it =
     (case it of
        JDict kvs \<Rightarrow>
          (if map_of kvs ''name'' \<noteq> None then
             (case py_int env (get_default kvs ''quantity'' (JInt 1)) of
                Inl e \<Rightarrow> Inl e
              | Inr q \<Rightarrow>
                  Inr (Some \<lparr>name = py_str env (get_default kvs ''name'' (JStr '''')),
                             quantity = q,
                             specifications =
                               py_str env (get_default kvs ''specifications'' (JStr ''''))\<rparr>))
           else Inr None)
      | _ \<Rightarrow> Inr None)"

text \<open>The loop of lines 179 to 188 over a list: the first exception ends it.\<close>

fun validate_items :: "builtins \<Rightarrow> json list \<Rightarrow> pyexc + item list" where
  "validate_items env [] = Inr []"
| "validate_items env (it # rest) =
     (case validate_item env it of
        Inl e \<Rightarrow> Inl e
      | Inr r \<Rightarrow>
          (case validate_items env rest of
             Inl e \<Rightarrow> Inl e
           | Inr vs \<Rightarrow> Inr ((case r of None \<Rightarrow> [] | Some v \<Rightarrow> [v]) @ vs)))"

text \<open>
  \<^verbatim>\<open>for item in result['items']\<close>: a list gives its elements, a string its
  characters (as one-character strings), a dict its keys; nothing else is iterable.
\<close>

definition iterate :: "builtins \<Rightarrow> json \<Rightarrow> pyexc + json list" where
  "iterate env v =
     (case v of
        JList xs \<Rightarrow> Inr xs
      | JStr s \<Rightarrow> Inr (map (\<lambda>c. JStr [c]) s)
      | JDict kvs \<Rightarrow> Inr (map JStr (remdups (map fst kvs)))
      | _ \<Rightarrow> raise env ''TypeError'' v)"

subsection \<open>The result envelope\<close>

text \<open>
  Both operations return a dict with \<^verbatim>\<open>success\<close> and \<^verbatim>\<open>error\<close>, the data
  fields of their shape, and \<^verbatim>\<open>raw_response\<close> on the JSON-failure path only.
\<close>

record envelope =
  success :: bool
  error :: "string option"
  raw_response :: "string option"

record rfp_result = envelope +
  title :: json
  budget :: "pyfloat option"
  deadline :: json
  items :: "item list"

record proposal_result = envelope +
  price :: "pyfloat option"
  payment_terms :: json
  warranty :: json

definition rfp_failure :: "string \<Rightarrow> string option \<Rightarrow> rfp_result" where
  "rfp_failure msg raw =
     \<lparr>success = False, error = Some msg, raw_response = raw,
      title = JNull, budget = None, deadline = JNull, items = []\<rparr>"

definition proposal_failure :: "string \<Rightarrow> string option \<Rightarrow> proposal_result" where
  "proposal_failure msg raw =
     \<lparr>success = False, error = Some msg, raw_response = raw,
      price = None, payment_terms = JNull, warranty = JNull\<rparr>"

text \<open>\<^verbatim>\<open>f'{error_type}: {error_message}'\<close> of the handler \<^verbatim>\<open>except Exception as e\<close>.\<close>

definition unexpected :: "pyexc \<Rightarrow> string" where
  "unexpected e = exc_type e @ '': '' @ exc_msg e"

definition parse_failed :: "pyexc \<Rightarrow> string" where
  "parse_failed e = ''Failed to parse JSON response: '' @ exc_msg e"

definition key_not_set :: string where
  "key_not_set = ''GEMINI_API_KEY environment variable not set''"

definition empty_response :: string where
  "empty_response = ''Empty response from Gemini API''"

subsection \<open>\<^verbatim>\<open>extract_rfp_from_text\<close>\<close>

text \<open>
  Lines 155 to 190, from the parsed value to the result; \<open>Inl\<close> is an exception that
  reaches the handler of line 192.
\<close>

definition normalize_rfp :: "builtins \<Rightarrow> json \<Rightarrow> pyexc + rfp_result" where
  "normalize_rfp env extracted_data =
     (case dict_get env extracted_data ''title'' (JStr ''Untitled RFP'') of
        Inl e \<Rightarrow> Inl e
      | Inr t \<Rightarrow>
     (case dict_get env extracted_data ''budget'' JNull of
        Inl e \<Rightarrow> Inl e
      | Inr b \<Rightarrow>
     (case dict_get env extracted_data ''deadline'' JNull of
        Inl e \<Rightarrow> Inl e
      | Inr d \<Rightarrow>
     (case dict_get env extracted_data ''items'' (JList []) of
        Inl e \<Rightarrow> Inl e
      | Inr its \<Rightarrow>
     (case validate_number env b of
        Inl e \<Rightarrow> Inl e
      | Inr b' \<Rightarrow>
     (case iterate env its of
        Inl e \<Rightarrow> Inl e
      | Inr xs \<Rightarrow>
     (case validate_items env xs of
        Inl e \<Rightarrow> Inl e
      | Inr vs \<Rightarrow>
          Inr \<lparr>success = True, error = None, raw_response = None,
               title = t, budget = b', deadline = validate_deadline env d,
               items = vs\<rparr>)))))))"

text \<open>
  Lines 120 to 204, from the remote outcome on.  Every path ends in a returned
  envelope: the handler of line 192 catches every \<^verbatim>\<open>Exception\<close>.
\<close>

definition rfp_from_outcome :: "builtins \<Rightarrow> remote_outcome \<Rightarrow> rfp_result" where
  "rfp_from_outcome env out =
     (case out of
        RemoteRaises e \<Rightarrow> rfp_failure (unexpected e) None
      | RemoteReturns r \<Rightarrow>
          (case response_text r of
             None \<Rightarrow> rfp_failure empty_response None
           | Some text \<Rightarrow>
               (let cleaned = clean_response text
                in case json_loads env cleaned of
                     Inl e \<Rightarrow>
                       if exc_type e = ''JSONDecodeError''
                       then rfp_failure (parse_failed e) (Some cleaned)
                       else rfp_failure (unexpected e) None
                   | Inr extracted_data \<Rightarrow>
                       (case normalize_rfp env extracted_data of
                          Inl e \<Rightarrow> rfp_failure (unexpected e) None
                        | Inr result \<Rightarrow> result))))"

text \<open>
  The whole operation: \<open>Inl\<close> is the ValueError of line 38, the only exception that
  reaches the caller.
\<close>

definition extract_rfp_from_text ::
  "builtins \<Rightarrow> string option \<Rightarrow> (string \<Rightarrow> remote_outcome) \<Rightarrow> string \<Rightarrow> pyexc + rfp_result"
where
  "extract_rfp_from_text env api_key remote natural_language_input =
     (if natural_language_input = [] \<or> strip natural_language_input = []
      then Inl (PyExc ''ValueError'' ''Natural language input cannot be empty'')
      else if key_missing api_key then Inr (rfp_failure key_not_set None)
      else Inr (rfp_from_outcome env (remote natural_language_input)))"

subsection \<open>\<^verbatim>\<open>extract_proposal_from_email\<close>\<close>

text \<open>Lines 332 to 347.\<close>

definition normalize_proposal :: "builtins \<Rightarrow> json \<Rightarrow> pyexc + proposal_result" where
  "normalize_proposal env extracted_data =
     (case dict_get env extracted_data ''price'' JNull of
        Inl e \<Rightarrow> Inl e
      | Inr p \<Rightarrow>
     (case dict_get env extracted_data ''payment_terms'' JNull of
        Inl e \<Rightarrow> Inl e
      | Inr pt \<Rightarrow>
     (case dict_get env extracted_data ''warranty'' JNull of
        Inl e \<Rightarrow> Inl e
      | Inr w \<Rightarrow>
     (case validate_number env p of
        Inl e \<Rightarrow> Inl e
      | Inr p' \<Rightarrow>
          Inr \<lparr>success = True, error = None, raw_response = None,
               price = p', payment_terms = pt, warranty = w\<rparr>))))"

text \<open>Lines 299 to 360.\<close>

definition proposal_from_outcome :: "builtins \<Rightarrow> remote_outcome \<Rightarrow> proposal_result" where
  "proposal_from_outcome env out =
     (case out of
        RemoteRaises e \<Rightarrow> proposal_failure (unexpected e) None
      | RemoteReturns r \<Rightarrow>
          (case response_text r of
             None \<Rightarrow> proposal_failure empty_response None
           | Some text \<Rightarrow>
               (let cleaned = clean_response text
                in case json_loads env cleaned of
                     Inl e \<Rightarrow>
                       if exc_type e = ''JSONDecodeError''
                       then proposal_failure (parse_failed e) (Some cleaned)
                       else proposal_failure (unexpected e) None
                   | Inr extracted_data \<Rightarrow>
                       (case normalize_proposal env extracted_data of
                          Inl e \<Rightarrow> proposal_failure (unexpected e) None
                        | Inr result \<Rightarrow> result))))"

definition extract_proposal_from_email ::
  "builtins \<Rightarrow> string option \<Rightarrow> (string \<Rightarrow> remote_outcome) \<Rightarrow> string
     \<Rightarrow> pyexc + proposal_result"
where
  "extract_proposal_from_email env api_key remote email_body =
     (if email_body = [] \<or> strip email_body = []
      then Inl (PyExc ''ValueError'' ''Email body cannot be empty'')
      else if key_missing api_key then Inr (proposal_failure key_not_set None)
      else Inr (proposal_from_outcome env (remote email_body)))"

section \<open>The record store\<close>

text \<open>
  The tables of \<^verbatim>\<open>rfp/models.py\<close> that the two writers use, as lists of rows in
  insertion order, and the counters of the automatic primary keys.  A
  \<^verbatim>\<open>DecimalField\<close> holds the \<^verbatim>\<open>Decimal\<close> the code assigns, which is always
  \<^verbatim>\<open>Decimal(str(f))\<close> of a float \<open>f\<close> and is kept in that form.  Timestamps are
  natural numbers read from a clock the caller passes.
\<close>

datatype decimal = DecimalStr pyfloat

datatype rfp_status = DRAFT | SENT | EVALUATING

record rfp_row =
  rfp_id :: nat
  rfp_title :: json
  natural_language_input :: string
  rfp_budget :: "decimal option"
  status :: rfp_status

record rfp_item_row =
  item_id :: nat
  item_rfp :: nat
  item_name :: string
  item_quantity :: int
  item_specifications :: string

record proposal_row =
  proposal_id :: nat
  proposal_rfp :: nat
  proposal_vendor :: nat
  raw_email_content :: string
  proposal_price :: "decimal option"
  proposal_payment_terms :: json
  proposal_warranty :: json
  submitted_at :: nat
  updated_at :: nat

record store =
  rfps :: "rfp_row list"
  rfp_items :: "rfp_item_row list"
  proposals :: "proposal_row list"
  next_rfp_id :: nat
  next_item_id :: nat
  next_proposal_id :: nat

text \<open>
  What the database backend refuses on its own account (a missing value in a
  \<^verbatim>\<open>NOT NULL\<close> column, a text too long, too many digits) is a parameter: for a row
  to be written, the exception the write raises, if any.
\<close>

record backend =
  reject_rfp :: "rfp_row \<Rightarrow> pyexc option"
  reject_item :: "rfp_item_row \<Rightarrow> pyexc option"
  reject_proposal :: "proposal_row \<Rightarrow> pyexc option"

text \<open>
  A block of store operations either returns or raises, and leaves a store behind in
  both cases.  \<^verbatim>\<open>with transaction.atomic():\<close> commits the block's writes when the
  block is left normally and rolls them back when an exception leaves it; the exception
  goes on to the caller.
\<close>

type_synonym 'a db_op = "store \<Rightarrow> (pyexc + 'a) \<times> store"

definition atomic :: "'a db_op \<Rightarrow> 'a db_op" where
  "atomic block s =
     (case block s of
        (Inl e, s') \<Rightarrow> (Inl e, s)
      | (Inr r, s') \<Rightarrow> (Inr r, s'))"

text \<open>\<^verbatim>\<open>RFP.objects.create(...)\<close>: the row gets the next primary key.\<close>

definition RFP_create ::
  "backend \<Rightarrow> json \<Rightarrow> string \<Rightarrow> decimal option \<Rightarrow> rfp_status \<Rightarrow> rfp_row db_op" where
  "RFP_create db t txt b st s =
     (let row = \<lparr>rfp_id = next_rfp_id s, rfp_title = t, natural_language_input = txt,
                 rfp_budget = b, status = st\<rparr>
      in case reject_rfp db row of
           Some e \<Rightarrow> (Inl e, s)
         | None \<Rightarrow> (Inr row, s\<lparr>rfps := rfps s @ [row],
                                 next_rfp_id := Suc (next_rfp_id s)\<rparr>))"

text \<open>\<^verbatim>\<open>RFPItem.objects.create(...)\<close>\<close>

definition RFPItem_create ::
  "backend \<Rightarrow> nat \<Rightarrow> string \<Rightarrow> int \<Rightarrow> string \<Rightarrow> rfp_item_row db_op" where
  "RFPItem_create db rid n q sp s =
     (let row = \<lparr>item_id = next_item_id s, item_rfp = rid, item_name = n,
                 item_quantity = q, item_specifications = sp\<rparr>
      in case reject_item db row of
           Some e \<Rightarrow> (Inl e, s)
         | None \<Rightarrow> (Inr row, s\<lparr>rfp_items := rfp_items s @ [row],
                                 next_item_id := Suc (next_item_id s)\<rparr>))"

section \<open>\<^verbatim>\<open>rfp/views.py\<close>: \<^verbatim>\<open>create_rfp_from_text\<close>\<close>

text \<open>
  \<^verbatim>\<open>_parse_budget\<close> on what the extraction returns for budget, a float or
  \<^verbatim>\<open>None\<close>: \<^verbatim>\<open>Decimal(str(f))\<close> raises for no float.
\<close>

definition parse_budget :: "pyfloat option \<Rightarrow> decimal option" where
  "parse_budget budget_value =
     (case budget_value of None \<Rightarrow> None | Some f \<Rightarrow> Some (DecimalStr f))"

datatype body =
    ErrorBody string
  | ExtractionFailed "string option"
  | Created rfp_row "rfp_item_row list" "pyfloat option" json nat

datatype http_response = HttpResponse (status_code: nat) (resp_body: body)

text \<open>
  Lines 390 to 396, the loop over the extracted items.  Each of them is a dict with the
  three keys, so the defaults of \<^verbatim>\<open>item_data.get\<close> are never used.
\<close>

fun create_items :: "backend \<Rightarrow> builtins \<Rightarrow> nat \<Rightarrow> item list \<Rightarrow> unit db_op" where
  "create_items db env rid [] s = (Inr (), s)"
| "create_items db env rid (item_data # rest) s =
     (case parse_quantity env (JInt (quantity item_data)) of
        Inl e \<Rightarrow> (Inl e, s)
      | Inr q \<Rightarrow>
          (case RFPItem_create db rid (name item_data) q (specifications item_data) s of
             (Inl e, s') \<Rightarrow> (Inl e, s')
           | (Inr _, s') \<Rightarrow> create_items db env rid rest s'))"

text \<open>Lines 380 to 411, the body of the \<^verbatim>\<open>with\<close> block.\<close>

definition create_block ::
  "backend \<Rightarrow> builtins \<Rightarrow> string \<Rightarrow> rfp_result \<Rightarrow> http_response db_op" where
  "create_block db env text extraction_result s =
     (case RFP_create db (title extraction_result) text
             (parse_budget (budget extraction_result)) DRAFT s of
        (Inl e, s1) \<Rightarrow> (Inl e, s1)
      | (Inr rfp, s1) \<Rightarrow>
          (case create_items db env (rfp_id rfp) (items extraction_result) s1 of
             (Inl e, s2) \<Rightarrow> (Inl e, s2)
           | (Inr _, s2) \<Rightarrow>
               (Inr (HttpResponse 201
                      (Created rfp
                         (filter (\<lambda>i. item_rfp i = rfp_id rfp) (rfp_items s2))
                         (budget extraction_result) (deadline extraction_result)
                         (length (items extraction_result)))),
                s2)))"

text \<open>
  Lines 413 to 423: \<^verbatim>\<open>except ValueError\<close> answers 400, \<^verbatim>\<open>except Exception\<close> 500.
\<close>

definition error_response :: "pyexc \<Rightarrow> http_response" where
  "error_response e =
     (if exc_type e = ''ValueError''
      then HttpResponse 400 (ErrorBody (''Validation error: '' @ exc_msg e))
      else HttpResponse 500 (ErrorBody (''Internal server error: '' @ exc_msg e)))"

text \<open>The view; \<open>text\<close> is \<^verbatim>\<open>request.data.get('text')\<close>.\<close>

definition create_rfp_from_text ::
  "backend \<Rightarrow> builtins \<Rightarrow> string option \<Rightarrow> (string \<Rightarrow> remote_outcome) \<Rightarrow> json
     \<Rightarrow> store \<Rightarrow> http_response \<times> store"
where
  "create_rfp_from_text db env api_key remote text s =
     (if \<not> truthy text then (HttpResponse 400 (ErrorBody ''Text field is required''), s)
      else case text of
        JStr t \<Rightarrow>
          (if strip t = []
           then (HttpResponse 400 (ErrorBody ''Text must be a non-empty string''), s)
           else case extract_rfp_from_text env api_key remote t of
                  Inl e \<Rightarrow> (error_response e, s)
                | Inr extraction_result \<Rightarrow>
                    if \<not> success extraction_result
                    then (HttpResponse 422 (ExtractionFailed (error extraction_result)), s)
                    else (case atomic (create_block db env t extraction_result) s of
                            (Inl e, s') \<Rightarrow> (error_response e, s')
                          | (Inr resp, s') \<Rightarrow> (resp, s')))
      | _ \<Rightarrow> (HttpResponse 400 (ErrorBody ''Text must be a non-empty string''), s))"

section \<open>\<^verbatim>\<open>fetch_emails.py\<close>: the upsert of \<^verbatim>\<open>_create_proposal_from_email\<close>\<close>

text \<open>
  \<^verbatim>\<open>Proposal.objects.filter(rfp=rfp, vendor=vendor).first()\<close>: the model orders
  by \<^verbatim>\<open>-submitted_at\<close>, so the first row is a matching row submitted latest (the
  earliest written of them, where several share that time).
\<close>

definition matches :: "nat \<Rightarrow> nat \<Rightarrow> proposal_row \<Rightarrow> bool" where
  "matches rfp vendor r \<longleftrightarrow> proposal_rfp r = rfp \<and> proposal_vendor r = vendor"

fun latest :: "proposal_row list \<Rightarrow> proposal_row option" where
  "latest [] = None"
| "latest (r # rs) =
     (case latest rs of
        None \<Rightarrow> Some r
      | Some b \<Rightarrow> if submitted_at b > submitted_at r then Some b else Some r)"

definition filter_first :: "store \<Rightarrow> nat \<Rightarrow> nat \<Rightarrow> proposal_row option" where
  "filter_first s rfp vendor = latest (filter (matches rfp vendor) (proposals s))"

text \<open>
  \<^verbatim>\<open>Proposal.objects.create(...)\<close>: \<^verbatim>\<open>unique_together = ['rfp', 'vendor']\<close>
  makes the store refuse a second row for a pair with an IntegrityError.
\<close>

definition Proposal_create ::
  "backend \<Rightarrow> nat \<Rightarrow> nat \<Rightarrow> decimal option \<Rightarrow> json \<Rightarrow> json \<Rightarrow> string \<Rightarrow> nat
     \<Rightarrow> proposal_row db_op"
where
  "Proposal_create db rfp vendor p pt w raw now s =
     (let row = \<lparr>proposal_id = next_proposal_id s, proposal_rfp = rfp,
                 proposal_vendor = vendor, raw_email_content = raw, proposal_price = p,
                 proposal_payment_terms = pt, proposal_warranty = w,
                 submitted_at = now, updated_at = now\<rparr>
      in if list_ex (matches rfp vendor) (proposals s)
         then (Inl (PyExc ''IntegrityError'' ''UNIQUE constraint failed''), s)
         else case reject_proposal db row of
                Some e \<Rightarrow> (Inl e, s)
              | None \<Rightarrow> (Inr row, s\<lparr>proposals := proposals s @ [row],
                                      next_proposal_id := Suc (next_proposal_id s)\<rparr>))"

text \<open>
  \<^verbatim>\<open>existing_proposal.save()\<close>: the row with the object's primary key is
  replaced by the object, and \<^verbatim>\<open>updated_at\<close> (\<^verbatim>\<open>auto_now\<close>) is set.
\<close>

definition replace_row :: "proposal_row \<Rightarrow> proposal_row \<Rightarrow> proposal_row" where
  "replace_row row r = (if proposal_id r = proposal_id row then row else r)"

definition Proposal_save :: "backend \<Rightarrow> proposal_row \<Rightarrow> nat \<Rightarrow> proposal_row db_op" where
  "Proposal_save db obj now s =
     (let row = obj\<lparr>updated_at := now\<rparr>
      in case reject_proposal db row of
           Some e \<Rightarrow> (Inl e, s)
         | None \<Rightarrow>
             (Inr row, s\<lparr>proposals := map (replace_row row) (proposals s)\<rparr>))"

text \<open>
  Lines 493 to 497, the assignments of the update path:
  \<^verbatim>\<open>
  if extracted_data.get('price') is not None:
      existing_proposal.price = Decimal(str(extracted_data['price']))
  existing_proposal.payment_terms = extracted_data.get('payment_terms') or ''
  existing_proposal.warranty = extracted_data.get('warranty') or ''
  existing_proposal.raw_email_content = body
  \<close>
\<close>

definition assign_extracted ::
  "proposal_row \<Rightarrow> proposal_result \<Rightarrow> string \<Rightarrow> proposal_row" where
  "assign_extracted existing_proposal extracted_data body =
     (let p1 = (case price extracted_data of
                  None \<Rightarrow> existing_proposal
                | Some f \<Rightarrow> existing_proposal\<lparr>proposal_price := Some (DecimalStr f)\<rparr>)
      in p1\<lparr>proposal_payment_terms := py_or (payment_terms extracted_data) (JStr ''''),
            proposal_warranty := py_or (warranty extracted_data) (JStr ''''),
            raw_email_content := body\<rparr>)"

text \<open>
  Line 510, the price of a new row:
  \<^verbatim>\<open>Decimal(str(extracted_data['price'])) if extracted_data.get('price') else None\<close>;
  the test is the truth value of the float.
\<close>

definition new_price :: "pyfloat option \<Rightarrow> decimal option" where
  "new_price p =
     (case p of
        None \<Rightarrow> None
      | Some f \<Rightarrow> if truthy (JFloat f) then Some (DecimalStr f) else None)"

text \<open>Lines 479 to 520: the \<^verbatim>\<open>with transaction.atomic():\<close> block of the upsert.\<close>

definition upsert_block ::
  "backend \<Rightarrow> nat \<Rightarrow> nat \<Rightarrow> proposal_result \<Rightarrow> string \<Rightarrow> nat \<Rightarrow> proposal_row db_op" where
  "upsert_block db rfp vendor extracted_data body now s =
     (case filter_first s rfp vendor of
        Some existing_proposal \<Rightarrow>
          Proposal_save db (assign_extracted existing_proposal extracted_data body) now s
      | None \<Rightarrow>
          Proposal_create db rfp vendor (new_price (price extracted_data))
            (py_or (payment_terms extracted_data) (JStr ''''))
            (py_or (warranty extracted_data) (JStr '''')) body now s)"

definition upsert_proposal ::
  "backend \<Rightarrow> nat \<Rightarrow> nat \<Rightarrow> proposal_result \<Rightarrow> string \<Rightarrow> nat \<Rightarrow> proposal_row db_op" where
  "upsert_proposal db rfp vendor extracted_data body now =
     atomic (upsert_block db rfp vendor extracted_data body now)"

text \<open>
  What the store itself guarantees for the proposals table: primary keys are distinct
  and below the counter, and no two rows share an (RFP, Vendor) pair.
\<close>

definition pair_of :: "proposal_row \<Rightarrow> nat \<times> nat" where
  "pair_of r = (proposal_rfp r, proposal_vendor r)"

definition unique_pairs :: "store \<Rightarrow> bool" where
  "unique_pairs s \<longleftrightarrow> distinct (map pair_of (proposals s))"

definition keys_ok :: "store \<Rightarrow> bool" where
  "keys_ok s \<longleftrightarrow>
     distinct (map proposal_id (proposals s)) \<and>
     list_all (\<lambda>r. proposal_id r < next_proposal_id s) (proposals s)"

section \<open>A response in a Markdown code fence\<close>

text \<open>
  The wrapping that the specification describes, written after its words and not after
  the code: a leading fence, tagged \<^verbatim>\<open>json\<close> or not, a line break, the text, a
  line break and a trailing fence.
\<close>

definition fenced :: "bool \<Rightarrow> string \<Rightarrow> string" where
  "fenced tagged t =
     (if tagged then fence_json else fence) @ [CHR 0x0A] @ t @ [CHR 0x0A] @ fence"

section \<open>Concrete instances\<close>

text \<open>
  Values for the parameters, for evaluating the model on concrete inputs: a JSON parser
  that knows one document, a backend that accepts every row, and an empty store.
\<close>

definition parser_of :: "string \<Rightarrow> json \<Rightarrow> string \<Rightarrow> pyexc + json" where
  "parser_of doc v s =
     (if s = doc then Inr v else Inl (PyExc ''JSONDecodeError'' ''Expecting value''))"

definition sample_builtins :: "string \<Rightarrow> json \<Rightarrow> builtins" where
  "sample_builtins doc v =
     \<lparr>json_loads = parser_of doc v, float_str = (\<lambda>_. None), int_str = (\<lambda>_. None),
      str_other = (\<lambda>_. []), fromisoformat_ok = (\<lambda>s. s = ''2024-03-15''),
      message = (\<lambda>_ _. [])\<rparr>"

definition accept_all :: backend where
  "accept_all =
     \<lparr>reject_rfp = (\<lambda>_. None), reject_item = (\<lambda>_. None), reject_proposal = (\<lambda>_. None)\<rparr>"

definition empty_store :: store where
  "empty_store =
     \<lparr>rfps = [], rfp_items = [], proposals = [],
      next_rfp_id = 1, next_item_id = 1, next_proposal_id = 1\<rparr>"

definition refusing_item :: "string \<Rightarrow> backend" where
  "refusing_item n =
     \<lparr>reject_rfp = (\<lambda>_. None),
      reject_item = (\<lambda>i. if item_name i = n
                           then Some (PyExc ''DataError'' ''value too long'') else None),
      reject_proposal = (\<lambda>_. None)\<rparr>"

definition two_items :: json where
  "two_items =
     JDict [(''title'', JStr ''Office''),
            (''items'', JList [JDict [(''name'', JStr ''Laptops''), (''quantity'', JInt 0)],
                               JDict [(''name'', JStr ''Monitors'')]])]"

text \<open>Two extraction results for the same pair, and the stores after each run.\<close>

definition first_run :: proposal_result where
  "first_run =
     \<lparr>success = True, error = None, raw_response = None,
      price = Some (Finite 100), payment_terms = JStr ''Net 30'', warranty = JStr ''1 year''\<rparr>"

definition second_run :: proposal_result where
  "second_run =
     \<lparr>success = True, error = None, raw_response = None,
      price = None, payment_terms = JStr ''Net 60'', warranty = JNull\<rparr>"

definition first_row :: proposal_row where
  "first_row =
     \<lparr>proposal_id = 1, proposal_rfp = 1, proposal_vendor = 1,
      raw_email_content = ''first mail'', proposal_price = Some (DecimalStr (Finite 100)),
      proposal_payment_terms = JStr ''Net 30'', proposal_warranty = JStr ''1 year'',
      submitted_at = 10, updated_at = 10\<rparr>"

definition second_row :: proposal_row where
  "second_row =
     \<lparr>proposal_id = 1, proposal_rfp = 1, proposal_vendor = 1,
      raw_email_content = ''second mail'', proposal_price = Some (DecimalStr (Finite 100)),
      proposal_payment_terms = JStr ''Net 60'', proposal_warranty = JStr '''',
      submitted_at = 10, updated_at = 20\<rparr>"

definition after_first :: store where
  "after_first = snd (upsert_proposal accept_all 1 1 first_run ''first mail'' 10 empty_store)"

definition after_second :: store where
  "after_second = snd (upsert_proposal accept_all 1 1 second_run ''second mail'' 20 after_first)"

text \<open>
  Response texts of the remote model with the values they decode to, for the sample
  parser: an item whose quantity is null, an empty deadline, a number of 310 digits, and
  the object of the repository's test \<^verbatim>\<open>test_successful_extraction\<close>.
\<close>

definition null_quantity_doc :: string where
  \<open>null_quantity_doc =
     ''{"title": "Office", "items": [{"name": "Laptops", "quantity": null}]}''\<close>

definition null_quantity_obj :: json where
  "null_quantity_obj =
     JDict [(''title'', JStr ''Office''),
            (''items'', JList [JDict [(''name'', JStr ''Laptops''), (''quantity'', JNull)]])]"

definition empty_deadline_doc :: string where
  \<open>empty_deadline_doc = ''{"title": "Office", "deadline": ""}''\<close>

definition empty_deadline_obj :: json where
  "empty_deadline_obj = JDict [(''title'', JStr ''Office''), (''deadline'', JStr '''')]"

definition huge_budget_doc :: string where
  \<open>huge_budget_doc = ''{"budget": 1'' @ replicate 309 (CHR ''0'') @ ''}''\<close>

definition huge_price_doc :: string where
  \<open>huge_price_doc = ''{"price": 1'' @ replicate 309 (CHR ''0'') @ ''}''\<close>

definition office_obj :: json where
  "office_obj =
     JDict [(''title'', JStr ''Office Laptop Purchase''), (''budget'', JInt 75000),
            (''deadline'', JStr ''2024-03-15''),
            (''items'', JList [JDict [(''name'', JStr ''Laptops''), (''quantity'', JInt 50),
                                      (''specifications'', JStr ''16GB RAM'')]])]"

section \<open>Whitespace and \<^verbatim>\<open>strip\<close>\<close>

lemma dropWhile_all_imp_Nil: "\<forall>x\<in>set (dropWhile P t). P x \<Longrightarrow> dropWhile P t = []"
  using hd_dropWhile [of P t] by (cases "dropWhile P t") auto

text \<open>A string strips to nothing exactly when it is empty or all whitespace.\<close>

lemma strip_empty_iff: "strip t = [] \<longleftrightarrow> list_all py_isspace t"
proof
  assume "strip t = []"
  then have "\<forall>x\<in>set (dropWhile py_isspace t). py_isspace x"
    by (simp add: strip_def lstrip_def rstrip_def)
  then have "dropWhile py_isspace t = []" by (rule dropWhile_all_imp_Nil)
  then show "list_all py_isspace t" by (simp add: list_all_iff)
next
  assume "list_all py_isspace t"
  then have "dropWhile py_isspace t = []" by (simp add: list_all_iff)
  then show "strip t = []"
    by (simp only: strip_def lstrip_def rstrip_def rev.simps dropWhile.simps)
qed

section \<open>Conversion of integers to floats\<close>

lemma bit_length_upper: "n < 2 ^ bit_length n"
proof (induction n rule: bit_length.induct)
  case (1 n)
  show ?case
  proof (cases "n = 0")
    case True
    then show ?thesis by (simp add: bit_length.simps)
  next
    case False
    with 1 have "n div 2 < 2 ^ bit_length (n div 2)" by simp
    then have "n < 2 * 2 ^ bit_length (n div 2)" by linarith
    with False show ?thesis by (simp add: bit_length.simps [of n])
  qed
qed

lemma bit_length_lower: "0 < n \<Longrightarrow> 2 ^ (bit_length n - 1) \<le> n"
proof (induction n rule: bit_length.induct)
  case (1 n)
  show ?case
  proof (cases "n div 2 = 0")
    case True
    with 1 have "bit_length n = 1" by (simp add: bit_length.simps [of n] bit_length.simps [of 0])
    with 1 show ?thesis by simp
  next
    case False
    with 1 have ih: "2 ^ (bit_length (n div 2) - 1) \<le> n div 2" by simp
    from False have "bit_length (n div 2) > 0" by (simp add: bit_length.simps [of "n div 2"])
    then have "bit_length n - 1 = Suc (bit_length (n div 2) - 1)"
      using 1 by (simp add: bit_length.simps [of n])
    with ih show ?thesis by simp
  qed
qed

lemma bit_length_le: "n < 2 ^ k \<Longrightarrow> bit_length n \<le> k"
proof (rule ccontr)
  assume a: "n < 2 ^ k" and "\<not> bit_length n \<le> k"
  then have k: "k \<le> bit_length n - 1" by simp
  have "0 < n" using \<open>\<not> bit_length n \<le> k\<close> by (cases "n = 0") (simp_all add: bit_length.simps)
  then have "2 ^ (bit_length n - 1) \<le> n" by (rule bit_length_lower)
  moreover have "(2::nat) ^ k \<le> 2 ^ (bit_length n - 1)" using k by (simp add: power_increasing)
  ultimately show False using a by linarith
qed

lemma round_half_even_ge: "a div 2 ^ e * 2 ^ e \<le> round_half_even a e"
  by (simp add: round_half_even_def Let_def)

lemma double_of_int_exact:
  assumes "\<bar>n\<bar> < 2 ^ 53"
  shows "double_of_int n = Some (Finite (of_int n))"
proof -
  define a where "a = nat \<bar>n\<bar>"
  define M where "M = (2::nat) ^ 1024"
  have a: "a < 2 ^ 53" using assms by (simp add: a_def nat_less_iff)
  then have "bit_length a - 53 = 0" using bit_length_le [OF a] by simp
  then have m: "round_half_even a (bit_length a - 53) = a"
    by (simp add: round_half_even_def)
  have "(2::nat) ^ 53 \<le> M" unfolding M_def by (rule power_increasing) simp_all
  with a have small: "\<not> M \<le> a" by linarith
  have val: "(if n < 0 then - of_nat a else of_nat a) = (of_int n :: rat)"
    by (simp add: a_def)
  have "double_of_int n =
          (if M \<le> a then None else Some (Finite (if n < 0 then - of_nat a else of_nat a)))"
    unfolding double_of_int_def Let_def a_def [symmetric] M_def [symmetric] m ..
  with small val show ?thesis by simp
qed

lemma double_of_int_overflow:
  assumes "2 ^ 1024 \<le> \<bar>n\<bar>"
  shows "double_of_int n = None"
proof -
  define a where "a = nat \<bar>n\<bar>"
  define L where "L = bit_length a"
  define e where "e = L - 53"
  define M where "M = (2::nat) ^ 1024"
  have "int M \<le> \<bar>n\<bar>" using assms unfolding M_def by (simp only: of_nat_power of_nat_numeral)
  then have a: "M \<le> a" by (simp add: a_def le_nat_iff)
  have "0 < M" unfolding M_def by (rule zero_less_power) simp
  with a have "0 < a" by linarith
  have "a < 2 ^ L" unfolding L_def by (rule bit_length_upper)
  with a have "(2::nat) ^ 1024 < 2 ^ L" unfolding M_def by (rule le_less_trans)
  then have L: "1024 < L" by (rule power_less_imp_less_exp [rotated]) simp
  have low: "2 ^ (L - 1) \<le> a" unfolding L_def using \<open>0 < a\<close> by (rule bit_length_lower)
  have split: "L - 1 = 52 + e" using L by (simp add: e_def)
  have pe: "(2::nat) ^ (L - 1) = 2 ^ 52 * 2 ^ e" unfolding split by (rule power_add)
  have "2 ^ 52 * 2 ^ e \<le> a" using low unfolding pe .
  then have "2 ^ 52 \<le> a div 2 ^ e" by (simp only: less_eq_div_iff_mult_less_eq zero_less_power zero_less_numeral)
  then have "2 ^ 52 * 2 ^ e \<le> a div 2 ^ e * 2 ^ e" by (rule mult_le_mono1)
  also have "\<dots> \<le> round_half_even a e" by (rule round_half_even_ge)
  finally have big: "2 ^ (L - 1) \<le> round_half_even a e" unfolding pe .
  have "M \<le> 2 ^ (L - 1)" unfolding M_def using L by (intro power_increasing) simp_all
  with big have "M \<le> round_half_even a e" by linarith
  moreover have "double_of_int n =
          (if M \<le> round_half_even a e then None
           else Some (Finite (if n < 0 then - of_nat (round_half_even a e)
                              else of_nat (round_half_even a e))))"
    unfolding double_of_int_def Let_def a_def [symmetric] L_def [symmetric] e_def [symmetric]
      M_def [symmetric] ..
  ultimately show ?thesis by simp
qed

section \<open>The input contract and the missing credential\<close>

text \<open>
  Claim C2.  Each of the two extraction operations raises exactly when its input is
  empty or consists of whitespace only (every character is whitespace, which includes
  the empty string).  On every other input it returns an envelope, whatever the
  credential, the outcome of the remote call and the builtins are: the result is not an
  exception.
\<close>

theorem extraction_raises_iff_blank:
  "(isl (extract_rfp_from_text env api_key remote t) \<longleftrightarrow> list_all py_isspace t) \<and>
   (isl (extract_proposal_from_email env api_key remote t) \<longleftrightarrow> list_all py_isspace t)"
  by (simp add: extract_rfp_from_text_def extract_proposal_from_email_def strip_empty_iff)

text \<open>
  Claim C5.  On an input that is not blank, when the credential is absent (unset or
  empty), both operations return the envelope with \<open>success = False\<close>, the error text
  that names \<^verbatim>\<open>GEMINI_API_KEY\<close>, every data field null and no items.
\<close>

theorem missing_credential_envelope:
  assumes "\<not> list_all py_isspace t" and "key_missing api_key"
  shows "extract_rfp_from_text env api_key remote t =
           Inr \<lparr>success = False,
                error = Some ''GEMINI_API_KEY environment variable not set'',
                raw_response = None,
                title = JNull, budget = None, deadline = JNull, items = []\<rparr> \<and>
         extract_proposal_from_email env api_key remote t =
           Inr \<lparr>success = False,
                error = Some ''GEMINI_API_KEY environment variable not set'',
                raw_response = None,
                price = None, payment_terms = JNull, warranty = JNull\<rparr>"
  using assms
  by (auto simp: extract_rfp_from_text_def extract_proposal_from_email_def strip_empty_iff
      rfp_failure_def proposal_failure_def key_not_set_def)

theorem missing_credential_envelope_witness:
  "\<not> list_all py_isspace ''Test input'' \<and> key_missing None \<and>
   extract_rfp_from_text (sample_builtins ''{}'' (JDict [])) None
       (\<lambda>_. RemoteReturns NoResponse) ''Test input'' =
     Inr \<lparr>success = False,
          error = Some ''GEMINI_API_KEY environment variable not set'',
          raw_response = None,
          title = JNull, budget = None, deadline = JNull, items = []\<rparr> \<and>
   extract_proposal_from_email (sample_builtins ''{}'' (JDict [])) None
       (\<lambda>_. RemoteReturns NoResponse) ''Test input'' =
     Inr \<lparr>success = False,
          error = Some ''GEMINI_API_KEY environment variable not set'',
          raw_response = None,
          price = None, payment_terms = JNull, warranty = JNull\<rparr>"
proof -
  have h1: "\<not> list_all py_isspace ''Test input''" by (simp add: py_isspace_def)
  have h2: "key_missing None" by (simp add: key_missing_def)
  show ?thesis
    using h1 h2 missing_credential_envelope [OF h1 h2] by simp
qed

section \<open>Stripping the code fence\<close>

lemma lstrip_nonspace: "\<not> py_isspace c \<Longrightarrow> lstrip (c # s) = c # s"
  by (simp add: lstrip_def)

lemma rstrip_nonspace: "\<not> py_isspace c \<Longrightarrow> rstrip (s @ [c]) = s @ [c]"
  by (simp add: rstrip_def)

lemma lstrip_space: "py_isspace c \<Longrightarrow> lstrip (c # s) = lstrip s"
  by (simp add: lstrip_def)

lemma rstrip_space: "py_isspace c \<Longrightarrow> rstrip (s @ [c]) = rstrip s"
  by (simp add: rstrip_def)

lemma rstrip_Cons_nonspace: "\<not> py_isspace c \<Longrightarrow> rstrip (c # s) = c # rstrip s"
proof -
  assume c: "\<not> py_isspace c"
  have "dropWhile py_isspace (rev s @ [c]) = dropWhile py_isspace (rev s) @ [c]"
    using c by (induction "rev s" arbitrary: s) (auto simp: dropWhile_append3 dropWhile_append)
  then show ?thesis by (simp add: rstrip_def)
qed

lemma rstrip_lstrip_commute: "rstrip (lstrip s) = lstrip (rstrip s)"
proof (induction s)
  case Nil
  show ?case by (simp add: lstrip_def rstrip_def)
next
  case (Cons c s)
  show ?case
  proof (cases "py_isspace c")
    case False
    then show ?thesis by (simp add: lstrip_nonspace rstrip_Cons_nonspace)
  next
    case True
    show ?thesis
    proof (cases "rstrip s = []")
      case e: True
      then have all: "list_all py_isspace s"
        by (simp add: rstrip_def list_all_iff)
      then have "rstrip (c # s) = []" using True by (simp add: rstrip_def list_all_iff)
      moreover have "lstrip s = []" using all by (simp add: lstrip_def list_all_iff)
      ultimately show ?thesis using True e Cons by (simp add: lstrip_space)
    next
      case ne: False
      then have "rstrip (c # s) = c # rstrip s"
        by (simp add: rstrip_def dropWhile_append)
      then show ?thesis using True Cons by (simp add: lstrip_space)
    qed
  qed
qed

lemma strip_newlines: "strip (CHR 0x0A # t @ [CHR 0x0A]) = strip t"
proof -
  have nl: "py_isspace (CHR 0x0A)" by (simp add: py_isspace_def)
  have "strip (CHR 0x0A # t @ [CHR 0x0A]) = rstrip (lstrip (t @ [CHR 0x0A]))"
    by (simp add: strip_def lstrip_space nl)
  also have "\<dots> = lstrip (rstrip (t @ [CHR 0x0A]))" by (rule rstrip_lstrip_commute)
  also have "\<dots> = lstrip (rstrip t)" by (simp add: rstrip_space nl)
  also have "\<dots> = strip t" by (simp add: strip_def rstrip_lstrip_commute)
  finally show ?thesis .
qed

lemma strip_idem: "strip (strip t) = strip t"
proof -
  have l: "lstrip (lstrip s) = lstrip s" for s
    unfolding lstrip_def by (simp add: dropWhile_idem)
  have r: "rstrip (rstrip s) = rstrip s" for s
    unfolding rstrip_def by (simp add: dropWhile_idem)
  have "strip (strip t) = rstrip (lstrip (rstrip (lstrip t)))" by (simp add: strip_def)
  also have "\<dots> = rstrip (rstrip (lstrip (lstrip t)))"
    by (simp add: rstrip_lstrip_commute [of "lstrip t"])
  also have "\<dots> = strip t" by (simp add: l r strip_def)
  finally show ?thesis .
qed

lemma strip_fenced: "strip (fenced tagged t) = fenced tagged t"
proof -
  have bq: "\<not> py_isspace (CHR 0x60)" by (simp add: py_isspace_def)
  obtain body where b: "fenced tagged t = CHR 0x60 # body @ [CHR 0x60]"
    by (cases tagged) (simp_all add: fenced_def fence_def fence_json_def)
  show ?thesis
    unfolding b strip_def
    using rstrip_nonspace [OF bq, of "CHR 0x60 # body"]
    by (simp add: lstrip_nonspace bq)
qed

lemma clean_fenced: "clean_response (fenced tagged t) = strip t"
proof -
  have e: "endswith (CHR 0x0A # t @ CHR 0x0A # fence) fence"
    by (simp add: endswith_def fence_def)
  have tk: "take (length (CHR 0x0A # t @ CHR 0x0A # fence) - 3) (CHR 0x0A # t @ CHR 0x0A # fence)
              = CHR 0x0A # t @ [CHR 0x0A]"
    by (simp add: fence_def)
  have ns: "\<not> startswith (CHR 0x0A # t @ CHR 0x0A # fence) fence"
    by (simp add: startswith_def fence_def)
  show ?thesis
  proof (cases tagged)
    case True
    have f: "fenced tagged t = fence_json @ CHR 0x0A # t @ CHR 0x0A # fence"
      using True by (simp add: fenced_def)
    have s1: "startswith (fenced tagged t) fence_json"
      unfolding f by (simp add: startswith_def)
    have d: "drop 7 (fenced tagged t) = CHR 0x0A # t @ CHR 0x0A # fence"
      unfolding f by (simp add: fence_json_def fence_def)
    show ?thesis
      unfolding clean_response_def Let_def strip_fenced
      by (simp only: s1 if_True d ns if_False e tk strip_newlines)
  next
    case False
    have f: "fenced tagged t = fence @ CHR 0x0A # t @ CHR 0x0A # fence"
      using False by (simp add: fenced_def)
    have s1: "\<not> startswith (fenced tagged t) fence_json"
      unfolding f by (simp add: startswith_def fence_json_def fence_def)
    have s2: "startswith (fenced tagged t) fence"
      unfolding f by (simp add: startswith_def)
    have d: "drop 3 (fenced tagged t) = CHR 0x0A # t @ CHR 0x0A # fence"
      unfolding f by (simp add: fence_def)
    show ?thesis
      unfolding clean_response_def Let_def strip_fenced
      by (simp only: s1 s2 if_True d if_False e tk strip_newlines)
  qed
qed

lemma startswith_fence_json: "startswith s fence_json \<Longrightarrow> startswith s fence"
  unfolding startswith_def fence_json_def
  by (metis append_eq_conv_conj append.assoc)

lemma clean_unfenced:
  assumes "\<not> startswith (strip t) fence" and "\<not> endswith (strip t) fence"
  shows "clean_response t = strip t"
proof -
  have "\<not> startswith (strip t) fence_json"
    using assms(1) startswith_fence_json by blast
  then show ?thesis
    using assms by (simp add: clean_response_def Let_def strip_idem)
qed

lemma strip_plain:
  "\<not> py_isspace c \<Longrightarrow> \<not> py_isspace d \<Longrightarrow> strip (c # m @ [d]) = c # m @ [d]"
  using rstrip_nonspace [of d "c # m"] by (simp add: strip_def lstrip_nonspace)

lemma clean_response_plain:
  assumes "\<not> py_isspace c" and "\<not> py_isspace d" and "c \<noteq> CHR 0x60" and "d \<noteq> CHR 0x60"
  shows "clean_response (c # m @ [d]) = c # m @ [d]"
proof -
  let ?t = "c # m @ [d]"
  have s: "strip ?t = ?t" using assms(1,2) by (rule strip_plain)
  have a: "\<not> startswith ?t fence" using assms(3) by (simp add: startswith_def fence_def)
  have b: "\<not> endswith ?t fence"
  proof
    assume "endswith ?t fence"
    then have "drop (length ?t - 3) ?t = fence" by (simp add: endswith_def fence_def)
    then have "last (drop (length ?t - 3) ?t) = CHR 0x60" by (simp add: fence_def)
    moreover have "last (drop (length ?t - 3) ?t) = last ?t" by (rule last_drop) simp
    ultimately show False using assms(4) by simp
  qed
  have "clean_response ?t = strip ?t"
    by (rule clean_unfenced) (simp_all only: s a b not_False_eq_True)
  then show ?thesis by (simp only: s)
qed

text \<open>
  Claim C7.  Let \<open>t\<close> be a non-empty text that, whitespace at its ends aside, neither
  begins nor ends with a fence; every JSON text is one, since a JSON value begins and
  ends with a brace, a bracket, a quote, a digit, a sign or a letter.  Then the response
  \<open>t\<close> in a code fence, tagged or not, is cleaned to the same text as the response
  \<open>t\<close> itself, which is \<open>t\<close> without the whitespace at its ends; so the parser is run
  on the same text, and both extraction operations return the same result for the
  fenced response as for the bare one.
\<close>

theorem fenced_response_same_result:
  assumes "t \<noteq> []" and "\<not> startswith (strip t) fence" and "\<not> endswith (strip t) fence"
  shows "clean_response (fenced tagged t) = clean_response t \<and>
         json_loads env (clean_response (fenced tagged t)) = json_loads env (strip t) \<and>
         rfp_from_outcome env (RemoteReturns (Response (Some (fenced tagged t)))) =
           rfp_from_outcome env (RemoteReturns (Response (Some t))) \<and>
         proposal_from_outcome env (RemoteReturns (Response (Some (fenced tagged t)))) =
           proposal_from_outcome env (RemoteReturns (Response (Some t))) \<and>
         extract_rfp_from_text env api_key
             (\<lambda>_. RemoteReturns (Response (Some (fenced tagged t)))) input =
           extract_rfp_from_text env api_key (\<lambda>_. RemoteReturns (Response (Some t))) input \<and>
         extract_proposal_from_email env api_key
             (\<lambda>_. RemoteReturns (Response (Some (fenced tagged t)))) input =
           extract_proposal_from_email env api_key
             (\<lambda>_. RemoteReturns (Response (Some t))) input"
proof -
  have c: "clean_response (fenced tagged t) = clean_response t"
    using assms(2,3) by (simp add: clean_fenced clean_unfenced)
  have ne: "fenced tagged t \<noteq> []" by (simp add: fenced_def fence_def)
  have r: "rfp_from_outcome env (RemoteReturns (Response (Some (fenced tagged t)))) =
             rfp_from_outcome env (RemoteReturns (Response (Some t)))"
    using assms(1) ne by (simp add: rfp_from_outcome_def c)
  have p: "proposal_from_outcome env (RemoteReturns (Response (Some (fenced tagged t)))) =
             proposal_from_outcome env (RemoteReturns (Response (Some t)))"
    using assms(1) ne by (simp add: proposal_from_outcome_def c)
  have j: "json_loads env (clean_response (fenced tagged t)) = json_loads env (strip t)"
    by (simp add: clean_fenced)
  have e1: "extract_rfp_from_text env api_key
              (\<lambda>_. RemoteReturns (Response (Some (fenced tagged t)))) input =
            extract_rfp_from_text env api_key (\<lambda>_. RemoteReturns (Response (Some t))) input"
    by (simp add: extract_rfp_from_text_def r)
  have e2: "extract_proposal_from_email env api_key
              (\<lambda>_. RemoteReturns (Response (Some (fenced tagged t)))) input =
            extract_proposal_from_email env api_key
              (\<lambda>_. RemoteReturns (Response (Some t))) input"
    by (simp add: extract_proposal_from_email_def p)
  from c j r p e1 e2 show ?thesis by (intro conjI)
qed

theorem fenced_response_same_result_witness:
  "''{}'' \<noteq> [] \<and> \<not> startswith (strip ''{}'') fence \<and> \<not> endswith (strip ''{}'') fence \<and>
   clean_response (fenced True ''{}'') = clean_response ''{}'' \<and>
   json_loads (sample_builtins ''{}'' (JDict [])) (clean_response (fenced True ''{}'')) =
     Inr (JDict []) \<and>
   rfp_from_outcome (sample_builtins ''{}'' (JDict []))
       (RemoteReturns (Response (Some (fenced True ''{}'')))) =
     rfp_from_outcome (sample_builtins ''{}'' (JDict []))
       (RemoteReturns (Response (Some ''{}'')))"
proof -
  have s: "strip ''{}'' = ''{}''"
    by (simp add: strip_def lstrip_def rstrip_def py_isspace_def)
  have h1: "''{}'' \<noteq> []" by simp
  have h2: "\<not> startswith (strip ''{}'') fence"
    unfolding s by (simp add: startswith_def fence_def)
  have h3: "\<not> endswith (strip ''{}'') fence"
    unfolding s by (simp add: endswith_def fence_def)
  have c: "clean_response ''{}'' = ''{}''"
    using clean_unfenced [OF h2 h3] by (simp add: s)
  show ?thesis
    using h1 h2 h3
      fenced_response_same_result [OF h1 h2 h3, of True "sample_builtins ''{}'' (JDict [])"]
    by (simp add: s c sample_builtins_def parser_of_def)
qed

section \<open>Normalization of the parsed response\<close>

text \<open>
  An exception in the normalization becomes the failure envelope of the last handler;
  a normalized result is returned as it is.
\<close>

lemma normalize_failure_fails_rfp:
  assumes "text \<noteq> []"
    and "json_loads env (clean_response text) = Inr extracted_data"
    and "normalize_rfp env extracted_data = Inl e"
  shows "rfp_from_outcome env (RemoteReturns (Response (Some text))) =
           rfp_failure (unexpected e) None"
  using assms by (simp add: rfp_from_outcome_def Let_def)

lemma normalize_failure_fails_proposal:
  assumes "text \<noteq> []"
    and "json_loads env (clean_response text) = Inr extracted_data"
    and "normalize_proposal env extracted_data = Inl e"
  shows "proposal_from_outcome env (RemoteReturns (Response (Some text))) =
           proposal_failure (unexpected e) None"
  using assms by (simp add: proposal_from_outcome_def Let_def)

lemma extract_rfp_normalize_failure:
  assumes "\<not> list_all py_isspace input" and "\<not> key_missing api_key"
    and "remote input = RemoteReturns (Response (Some text))" and "text \<noteq> []"
    and "json_loads env (clean_response text) = Inr extracted_data"
    and "normalize_rfp env extracted_data = Inl e"
  shows "extract_rfp_from_text env api_key remote input = Inr (rfp_failure (unexpected e) None)"
  using assms
  by (auto simp: extract_rfp_from_text_def strip_empty_iff normalize_failure_fails_rfp)

lemma extract_rfp_normalized:
  assumes "\<not> list_all py_isspace input" and "\<not> key_missing api_key"
    and "remote input = RemoteReturns (Response (Some text))" and "text \<noteq> []"
    and "json_loads env (clean_response text) = Inr extracted_data"
    and "normalize_rfp env extracted_data = Inr r"
  shows "extract_rfp_from_text env api_key remote input = Inr r"
  using assms
  by (auto simp: extract_rfp_from_text_def strip_empty_iff rfp_from_outcome_def)

lemma extract_proposal_normalize_failure:
  assumes "\<not> list_all py_isspace input" and "\<not> key_missing api_key"
    and "remote input = RemoteReturns (Response (Some text))" and "text \<noteq> []"
    and "json_loads env (clean_response text) = Inr extracted_data"
    and "normalize_proposal env extracted_data = Inl e"
  shows "extract_proposal_from_email env api_key remote input =
           Inr (proposal_failure (unexpected e) None)"
  using assms
  by (auto simp: extract_proposal_from_email_def strip_empty_iff
      normalize_failure_fails_proposal)

lemma sample_parser_hit: "json_loads (sample_builtins doc v) doc = Inr v"
  by (simp add: sample_builtins_def parser_of_def)

lemma sample_message: "message (sample_builtins doc v) cls x = []"
  by (simp add: sample_builtins_def)

lemma docs_clean:
  "clean_response null_quantity_doc = null_quantity_doc"
  "clean_response empty_deadline_doc = empty_deadline_doc"
  "clean_response huge_budget_doc = huge_budget_doc"
  "clean_response huge_price_doc = huge_price_doc"
proof -
  have o: "\<not> py_isspace (CHR ''{'')" "\<not> py_isspace (CHR ''}'')"
    "CHR ''{'' \<noteq> CHR 0x60" "CHR ''}'' \<noteq> CHR 0x60"
    by (simp_all add: py_isspace_def)
  note p = clean_response_plain [OF o]
  show "clean_response null_quantity_doc = null_quantity_doc"
    using p [of "butlast (tl null_quantity_doc)"] by (simp add: null_quantity_doc_def)
  show "clean_response empty_deadline_doc = empty_deadline_doc"
    using p [of "butlast (tl empty_deadline_doc)"] by (simp add: empty_deadline_doc_def)
  show "clean_response huge_budget_doc = huge_budget_doc"
    using p [of "tl (''{\"budget\": 1'' @ replicate 309 (CHR ''0''))"]
    by (simp add: huge_budget_doc_def)
  show "clean_response huge_price_doc = huge_price_doc"
    using p [of "tl (''{\"price\": 1'' @ replicate 309 (CHR ''0''))"]
    by (simp add: huge_price_doc_def)
qed

lemma nonblank: "\<not> list_all py_isspace ''Buy laptops''" "\<not> key_missing (Some ''key'')"
  by (simp_all add: py_isspace_def key_missing_def)


subsection \<open>Numbers\<close>

text \<open>
  What the number check does on every value: null stays null, a value that
  \<^verbatim>\<open>float\<close> converts becomes that float, a ValueError or TypeError gives null, and an
  OverflowError leaves the check.
\<close>

lemma validate_number_cases:
  "validate_number env v =
     (if v = JNull then Inr None
      else case py_float env v of
             Inr f \<Rightarrow> Inr (Some f)
           | Inl e \<Rightarrow> if exc_type e = ''OverflowError'' then Inl e else Inr None)"
  by (auto simp: validate_number_def py_float_def raise_def value_or_type_error_def
      split: json.splits option.splits)

lemma validate_number_raises:
  "validate_number env v = Inl e \<Longrightarrow> \<exists>n. v = JInt n \<and> double_of_int n = None"
  by (auto simp: validate_number_def py_float_def raise_def value_or_type_error_def
      split: json.splits option.splits if_splits)

lemma big_overflows: "double_of_int (10 ^ 309) = None"
  by (rule double_of_int_overflow) simp

text \<open>
  Claim C8 says that a numeric field that does not convert to a float is set to null
  and never fails the extraction.  An integer of 310 digits does not convert:
  \<^verbatim>\<open>float\<close> raises OverflowError, the handler for ValueError and TypeError lets it
  pass, and the normalization ends in the exception, for budget and for price; on a
  response with such a number both operations return \<open>success = False\<close>.
\<close>

theorem huge_number_fails_extraction:
  "normalize_rfp env (JDict [(''budget'', JInt (10 ^ 309))]) =
     Inl (PyExc ''OverflowError'' (message env ''OverflowError'' (JInt (10 ^ 309)))) \<and>
   normalize_proposal env (JDict [(''price'', JInt (10 ^ 309))]) =
     Inl (PyExc ''OverflowError'' (message env ''OverflowError'' (JInt (10 ^ 309)))) \<and>
   extract_rfp_from_text
       (sample_builtins huge_budget_doc (JDict [(''budget'', JInt (10 ^ 309))])) (Some ''key'')
       (\<lambda>_. RemoteReturns (Response (Some huge_budget_doc))) ''Buy laptops'' =
     Inr \<lparr>success = False, error = Some ''OverflowError: '', raw_response = None,
          title = JNull, budget = None, deadline = JNull, items = []\<rparr> \<and>
   extract_proposal_from_email
       (sample_builtins huge_price_doc (JDict [(''price'', JInt (10 ^ 309))])) (Some ''key'')
       (\<lambda>_. RemoteReturns (Response (Some huge_price_doc))) ''Buy laptops'' =
     Inr \<lparr>success = False, error = Some ''OverflowError: '', raw_response = None,
          price = None, payment_terms = JNull, warranty = JNull\<rparr>"
proof -
  define big where "big = (10::int) ^ 309"
  have ov: "double_of_int big = None" unfolding big_def by (rule big_overflows)
  have v: "validate_number env (JInt big) =
             Inl (PyExc ''OverflowError'' (message env ''OverflowError'' (JInt big)))" for env
    by (simp add: validate_number_def py_float_def ov raise_def value_or_type_error_def)
  have a: "normalize_rfp env (JDict [(''budget'', JInt big)]) =
          Inl (PyExc ''OverflowError'' (message env ''OverflowError'' (JInt big)))" for env
    by (simp add: normalize_rfp_def dict_get_def get_default_def v)
  have b: "normalize_proposal env (JDict [(''price'', JInt big)]) =
          Inl (PyExc ''OverflowError'' (message env ''OverflowError'' (JInt big)))" for env
    by (simp add: normalize_proposal_def dict_get_def get_default_def v)
  have ne: "huge_budget_doc \<noteq> []" "huge_price_doc \<noteq> []"
    by (simp_all add: huge_budget_doc_def huge_price_doc_def)
  have "extract_rfp_from_text (sample_builtins huge_budget_doc (JDict [(''budget'', JInt big)]))
          (Some ''key'') (\<lambda>_. RemoteReturns (Response (Some huge_budget_doc)))
          ''Buy laptops'' =
        Inr (rfp_failure (unexpected (PyExc ''OverflowError''
               (message (sample_builtins huge_budget_doc (JDict [(''budget'', JInt big)]))
                  ''OverflowError'' (JInt big)))) None)"
    by (rule extract_rfp_normalize_failure [OF nonblank refl ne(1) _ a])
       (simp only: docs_clean sample_parser_hit)
  then have c: "extract_rfp_from_text
          (sample_builtins huge_budget_doc (JDict [(''budget'', JInt big)]))
          (Some ''key'') (\<lambda>_. RemoteReturns (Response (Some huge_budget_doc)))
          ''Buy laptops'' =
        Inr \<lparr>success = False, error = Some ''OverflowError: '', raw_response = None,
          title = JNull, budget = None, deadline = JNull, items = []\<rparr>"
    by (simp add: sample_message unexpected_def rfp_failure_def)
  have "extract_proposal_from_email
          (sample_builtins huge_price_doc (JDict [(''price'', JInt big)]))
          (Some ''key'') (\<lambda>_. RemoteReturns (Response (Some huge_price_doc)))
          ''Buy laptops'' =
        Inr (proposal_failure (unexpected (PyExc ''OverflowError''
               (message (sample_builtins huge_price_doc (JDict [(''price'', JInt big)]))
                  ''OverflowError'' (JInt big)))) None)"
    by (rule extract_proposal_normalize_failure [OF nonblank refl ne(2) _ b])
       (simp only: docs_clean sample_parser_hit)
  then have d: "extract_proposal_from_email
          (sample_builtins huge_price_doc (JDict [(''price'', JInt big)]))
          (Some ''key'') (\<lambda>_. RemoteReturns (Response (Some huge_price_doc)))
          ''Buy laptops'' =
        Inr \<lparr>success = False, error = Some ''OverflowError: '', raw_response = None,
          price = None, payment_terms = JNull, warranty = JNull\<rparr>"
    by (simp add: sample_message unexpected_def proposal_failure_def)
  from a [of env] b [of env] c d show ?thesis unfolding big_def by (intro conjI)
qed

subsection \<open>The deadline\<close>

lemma validate_deadline_cases:
  "validate_deadline env v =
     (if \<not> truthy v then v
      else if \<exists>s. v = JStr s \<and> fromisoformat_ok env s then v
      else JNull)"
  by (auto simp: validate_deadline_def split: json.splits)

text \<open>
  Claim C4 says that a deadline is kept only if it parses as an ISO-8601 date and is
  null otherwise.  The check is skipped for a value that is false as a condition, so the
  empty string and the number 0 come back as they are, in a successful result.
\<close>

theorem falsy_deadline_kept:
  "normalize_rfp env empty_deadline_obj =
     Inr \<lparr>success = True, error = None, raw_response = None, title = JStr ''Office'',
          budget = None, deadline = JStr '''', items = []\<rparr> \<and>
   normalize_rfp env (JDict [(''title'', JStr ''Office''), (''deadline'', JInt 0)]) =
     Inr \<lparr>success = True, error = None, raw_response = None, title = JStr ''Office'',
          budget = None, deadline = JInt 0, items = []\<rparr> \<and>
   extract_rfp_from_text (sample_builtins empty_deadline_doc empty_deadline_obj) (Some ''key'')
       (\<lambda>_. RemoteReturns (Response (Some empty_deadline_doc))) ''Buy laptops'' =
     Inr \<lparr>success = True, error = None, raw_response = None, title = JStr ''Office'',
          budget = None, deadline = JStr '''', items = []\<rparr>"
proof -
  have n: "normalize_rfp env empty_deadline_obj =
     Inr \<lparr>success = True, error = None, raw_response = None, title = JStr ''Office'',
          budget = None, deadline = JStr '''', items = []\<rparr>" for env
    by (simp add: empty_deadline_obj_def normalize_rfp_def dict_get_def get_default_def
        validate_number_def iterate_def validate_deadline_def)
  have z: "normalize_rfp env (JDict [(''title'', JStr ''Office''), (''deadline'', JInt 0)]) =
     Inr \<lparr>success = True, error = None, raw_response = None, title = JStr ''Office'',
          budget = None, deadline = JInt 0, items = []\<rparr>"
    by (simp add: normalize_rfp_def dict_get_def get_default_def
        validate_number_def iterate_def validate_deadline_def)
  have ne: "empty_deadline_doc \<noteq> []" by (simp add: empty_deadline_doc_def)
  have e: "extract_rfp_from_text (sample_builtins empty_deadline_doc empty_deadline_obj)
          (Some ''key'') (\<lambda>_. RemoteReturns (Response (Some empty_deadline_doc)))
          ''Buy laptops'' =
     Inr \<lparr>success = True, error = None, raw_response = None, title = JStr ''Office'',
          budget = None, deadline = JStr '''', items = []\<rparr>"
    by (rule extract_rfp_normalized [OF nonblank refl ne _ n])
       (simp only: docs_clean sample_parser_hit)
  from n [of env] z e show ?thesis by (intro conjI)
qed

subsection \<open>The items\<close>

text \<open>
  One entry of the items: anything but a dict, and a dict without the key
  \<^verbatim>\<open>name\<close>, is skipped; in a kept entry a missing quantity is 1 and a missing
  specification the empty string; a quantity that \<^verbatim>\<open>int\<close> refuses is an exception.
\<close>

lemma validate_item_cases:
  "validate_item env it =
     (case it of
        JDict kvs \<Rightarrow>
          (case map_of kvs ''name'' of
             None \<Rightarrow> Inr None
           | Some n \<Rightarrow>
               (case py_int env (case map_of kvs ''quantity'' of None \<Rightarrow> JInt 1 | Some q \<Rightarrow> q) of
                  Inl e \<Rightarrow> Inl e
                | Inr q \<Rightarrow>
                    Inr (Some \<lparr>name = py_str env n, quantity = q,
                               specifications =
                                 (case map_of kvs ''specifications'' of
                                    None \<Rightarrow> [] | Some sp \<Rightarrow> py_str env sp)\<rparr>)))
      | _ \<Rightarrow> Inr None)"
  by (auto simp: validate_item_def get_default_def py_str_def
      split: json.splits option.splits sum.splits)

text \<open>
  Claim C3 says that a quantity that does not convert to an integer becomes 1 and never
  fails the extraction.  With \<^verbatim>\<open>"quantity": null\<close> in a named entry \<^verbatim>\<open>int\<close> raises
  TypeError, no handler is around the conversion, the normalization ends in the
  exception and the operation returns \<open>success = False\<close>.
\<close>

theorem null_quantity_fails_extraction:
  "normalize_rfp env null_quantity_obj =
     Inl (PyExc ''TypeError'' (message env ''TypeError'' JNull)) \<and>
   extract_rfp_from_text (sample_builtins null_quantity_doc null_quantity_obj) (Some ''key'')
       (\<lambda>_. RemoteReturns (Response (Some null_quantity_doc))) ''Buy laptops'' =
     Inr \<lparr>success = False, error = Some ''TypeError: '', raw_response = None,
          title = JNull, budget = None, deadline = JNull, items = []\<rparr>"
proof -
  have n: "normalize_rfp env null_quantity_obj =
             Inl (PyExc ''TypeError'' (message env ''TypeError'' JNull))" for env
    by (simp add: null_quantity_obj_def normalize_rfp_def dict_get_def get_default_def
        validate_number_def iterate_def validate_item_def py_int_def raise_def)
  have ne: "null_quantity_doc \<noteq> []" by (simp add: null_quantity_doc_def)
  have "extract_rfp_from_text (sample_builtins null_quantity_doc null_quantity_obj)
          (Some ''key'') (\<lambda>_. RemoteReturns (Response (Some null_quantity_doc)))
          ''Buy laptops'' =
        Inr (rfp_failure (unexpected (PyExc ''TypeError''
               (message (sample_builtins null_quantity_doc null_quantity_obj)
                  ''TypeError'' JNull))) None)"
    by (rule extract_rfp_normalize_failure [OF nonblank refl ne _ n])
       (simp only: docs_clean sample_parser_hit)
  then show ?thesis
    using n [of env] by (simp add: sample_message unexpected_def rfp_failure_def)
qed

text \<open>The object of the repository's test: a float budget, an integer quantity.\<close>

lemma office_purchase_extracted:
  "normalize_rfp (sample_builtins doc v) office_obj =
     Inr \<lparr>success = True, error = None, raw_response = None,
          title = JStr ''Office Laptop Purchase'', budget = Some (Finite 75000),
          deadline = JStr ''2024-03-15'',
          items = [\<lparr>name = ''Laptops'', quantity = 50, specifications = ''16GB RAM''\<rparr>]\<rparr>"
proof -
  have "double_of_int 75000 = Some (Finite (of_int 75000))"
    by (rule double_of_int_exact) simp
  then have f: "double_of_int 75000 = Some (Finite 75000)" by simp
  show ?thesis
    by (simp add: office_obj_def normalize_rfp_def dict_get_def get_default_def
        validate_number_def py_float_def f validate_deadline_def sample_builtins_def
        iterate_def validate_item_def py_int_def py_str_def)
qed

section \<open>\<^verbatim>\<open>_parse_quantity\<close>\<close>

lemma parse_quantity_of_int: "parse_quantity env (JInt n) = Inr (max 1 n)"
  by (simp add: parse_quantity_def py_int_def)

lemma parse_quantity_at_least_1: "parse_quantity env v = Inr q \<Longrightarrow> 1 \<le> q"
  by (auto simp: parse_quantity_def split: sum.splits if_splits)

text \<open>
  What the function does on every value: the maximum when \<^verbatim>\<open>int\<close> succeeds, 1 when
  it raises ValueError or TypeError, and the OverflowError itself when it raises that.
\<close>

lemma parse_quantity_cases:
  "parse_quantity env v =
     (case py_int env v of
        Inr n \<Rightarrow> Inr (max 1 n)
      | Inl e \<Rightarrow> if exc_type e = ''OverflowError'' then Inl e else Inr 1)"
  by (auto simp: parse_quantity_def py_int_def raise_def value_or_type_error_def
      split: json.splits pyfloat.splits option.splits)


section \<open>The transaction of \<^verbatim>\<open>create_rfp_from_text\<close>\<close>

lemma atomic_failure: "atomic block s = (Inl e, s') \<Longrightarrow> s' = s"
  by (auto simp: atomic_def split: prod.splits sum.splits)

lemma atomic_raises: "block s = (Inl e, s') \<Longrightarrow> atomic block s = (Inl e, s)"
  by (simp add: atomic_def)

lemma RFP_create_written:
  "RFP_create db t txt b st s = (Inr row, s1) \<Longrightarrow>
     rfps s1 = rfps s @ [row] \<and> rfp_id row = next_rfp_id s \<and> rfp_items s1 = rfp_items s"
  by (auto simp: RFP_create_def Let_def split: option.splits)

lemma create_items_rfps:
  "create_items db env rid its s = (r, s') \<Longrightarrow> rfps s' = rfps s"
proof (induction its arbitrary: s)
  case Nil
  then show ?case by simp
next
  case (Cons it its)
  then show ?case
    by (auto simp: parse_quantity_of_int RFPItem_create_def Let_def
        split: option.splits prod.splits sum.splits)
qed

lemma create_items_quantities:
  "create_items db env rid its s = (r, s') \<Longrightarrow>
     list_all (\<lambda>i. 1 \<le> item_quantity i) (rfp_items s) \<Longrightarrow>
     list_all (\<lambda>i. 1 \<le> item_quantity i) (rfp_items s')"
proof (induction its arbitrary: s)
  case Nil
  then show ?case by simp
next
  case (Cons it its)
  show ?case
  proof (cases "reject_item db \<lparr>item_id = next_item_id s, item_rfp = rid,
                   item_name = name it, item_quantity = max 1 (quantity it),
                   item_specifications = specifications it\<rparr>")
    case (Some e)
    with Cons.prems show ?thesis
      by (simp add: parse_quantity_of_int RFPItem_create_def Let_def)
  next
    case None
    with Cons.prems show ?thesis
      by (auto simp: parse_quantity_of_int RFPItem_create_def Let_def
          intro!: Cons.IH [where s = "s\<lparr>rfp_items := rfp_items s @
             [\<lparr>item_id = next_item_id s, item_rfp = rid,
                   item_name = name it, item_quantity = max 1 (quantity it),
                   item_specifications = specifications it\<rparr>],
              next_item_id := Suc (next_item_id s)\<rparr>"])
  qed
qed

lemma create_rfp_failure_leaves_store:
  assumes "create_rfp_from_text db env api_key remote text s = (resp, s')"
    and "status_code resp \<noteq> 201"
  shows "s' = s"
  using assms
  by (auto simp: create_rfp_from_text_def create_block_def atomic_def error_response_def
      split: if_splits json.splits sum.splits prod.splits)

lemma extract_Inr_nonblank:
  "extract_rfp_from_text env api_key remote t = Inr r \<Longrightarrow> t \<noteq> [] \<and> strip t \<noteq> []"
  by (auto simp: extract_rfp_from_text_def split: if_splits)

lemma two_items_extracted: "extract_rfp_from_text (sample_builtins ''{}'' two_items) (Some ''key'')
       (\<lambda>_. RemoteReturns (Response (Some ''{}''))) ''Buy things'' = Inr
       \<lparr>success = True, error = None, raw_response = None, title = JStr ''Office'',
          budget = None, deadline = JNull,
          items = [\<lparr>name = ''Laptops'', quantity = 0, specifications = ''''\<rparr>,
                   \<lparr>name = ''Monitors'', quantity = 1, specifications = ''''\<rparr>]\<rparr>"
proof -
  have s: "strip ''Buy things'' = ''Buy things''"
    by (simp add: strip_def lstrip_def rstrip_def py_isspace_def)
  have s2: "strip ''{}'' = ''{}''"
    by (simp add: strip_def lstrip_def rstrip_def py_isspace_def)
  have c: "clean_response ''{}'' = ''{}''"
    by (rule trans [OF clean_unfenced])
       (simp_all add: s2 startswith_def endswith_def fence_def)
  show ?thesis
  by (simp add: extract_rfp_from_text_def s key_missing_def rfp_from_outcome_def c
      sample_builtins_def parser_of_def two_items_def normalize_rfp_def dict_get_def
      get_default_def validate_number_def validate_deadline_def iterate_def
      validate_item_def py_int_def py_str_def)
qed


text \<open>
  Claim C6.  Take a request whose extraction succeeds, whose RFP row the store accepts
  and writes, and whose loop over the items then ends in an exception \<open>e\<close>, so
  that inside the block the store \<open>s2\<close> holds the new RFP row.  Then the view
  answers with the error for \<open>e\<close> and leaves the store exactly as it was before the
  request, \<open>s\<close>; with primary keys below their counter and items that refer to
  existing RFPs, no row of \<open>s\<close> has the key of the new RFP and no item refers to it.
\<close>

theorem create_rfp_all_or_nothing:
  assumes ex: "extract_rfp_from_text env api_key remote t = Inr r"
    and ok: "success r"
    and rfp: "RFP_create db (title r) t (parse_budget (budget r)) DRAFT s = (Inr rfp, s1)"
    and it: "create_items db env (rfp_id rfp) (items r) s1 = (Inl e, s2)"
    and pk: "list_all (\<lambda>r. rfp_id r < next_rfp_id s) (rfps s)"
    and fk: "list_all (\<lambda>i. item_rfp i < next_rfp_id s) (rfp_items s)"
  shows "rfps s2 = rfps s @ [rfp] \<and>
         create_rfp_from_text db env api_key remote (JStr t) s = (error_response e, s) \<and>
         \<not> list_ex (\<lambda>r. rfp_id r = rfp_id rfp) (rfps s) \<and>
         \<not> list_ex (\<lambda>i. item_rfp i = rfp_id rfp) (rfp_items s)"
proof -
  have w: "rfps s1 = rfps s @ [rfp]" and id: "rfp_id rfp = next_rfp_id s"
    using RFP_create_written [OF rfp] by simp_all
  have a: "rfps s2 = rfps s @ [rfp]"
    using create_items_rfps [OF it] w by simp
  have blk: "create_block db env t r s = (Inl e, s2)"
    using rfp it by (simp add: create_block_def)
  have nb: "t \<noteq> []" "strip t \<noteq> []" using extract_Inr_nonblank [OF ex] by simp_all
  have res: "create_rfp_from_text db env api_key remote (JStr t) s = (error_response e, s)"
    using nb ex ok atomic_raises [of "create_block db env t r" s e s2, OF blk] by (simp add: create_rfp_from_text_def)
  have n1: "\<not> list_ex (\<lambda>r. rfp_id r = rfp_id rfp) (rfps s)"
    using pk by (auto simp: id list_all_iff list_ex_iff)
  have n2: "\<not> list_ex (\<lambda>i. item_rfp i = rfp_id rfp) (rfp_items s)"
    using fk by (auto simp: id list_all_iff list_ex_iff)
  from a res n1 n2 show ?thesis by simp
qed

theorem create_rfp_all_or_nothing_witness:
  "create_items (refusing_item ''Monitors'') (sample_builtins ''{}'' two_items) 1
     [\<lparr>name = ''Laptops'', quantity = 0, specifications = ''''\<rparr>,
      \<lparr>name = ''Monitors'', quantity = 1, specifications = ''''\<rparr>]
     (empty_store\<lparr>rfps := [\<lparr>rfp_id = 1, rfp_title = JStr ''Office'',
                                natural_language_input = ''Buy things'',
                                rfp_budget = None, status = DRAFT\<rparr>],
                   next_rfp_id := 2\<rparr>) =
     (Inl (PyExc ''DataError'' ''value too long''),
      empty_store\<lparr>rfps := [\<lparr>rfp_id = 1, rfp_title = JStr ''Office'',
                                natural_language_input = ''Buy things'',
                                rfp_budget = None, status = DRAFT\<rparr>],
                  next_rfp_id := 2,
                  rfp_items := [\<lparr>item_id = 1, item_rfp = 1, item_name = ''Laptops'',
                                  item_quantity = 1, item_specifications = ''''\<rparr>],
                  next_item_id := 2\<rparr>) \<and>
   create_rfp_from_text (refusing_item ''Monitors'') (sample_builtins ''{}'' two_items)
     (Some ''key'') (\<lambda>_. RemoteReturns (Response (Some ''{}''))) (JStr ''Buy things'')
     empty_store =
     (HttpResponse 500 (ErrorBody ''Internal server error: value too long''), empty_store)"
proof -
  let ?db = "refusing_item ''Monitors''"
  let ?env = "sample_builtins ''{}'' two_items"
  let ?rfp = "\<lparr>rfp_id = 1, rfp_title = JStr ''Office'',
               natural_language_input = ''Buy things'',
               rfp_budget = None, status = DRAFT\<rparr>"
  let ?s1 = "empty_store\<lparr>rfps := [?rfp], next_rfp_id := 2\<rparr>"
  let ?s2 = "empty_store\<lparr>rfps := [?rfp], next_rfp_id := 2,
               rfp_items := [\<lparr>item_id = 1, item_rfp = 1, item_name = ''Laptops'',
                               item_quantity = 1, item_specifications = ''''\<rparr>],
               next_item_id := 2\<rparr>"
  let ?r = "\<lparr>success = True, error = None, raw_response = None, title = JStr ''Office'',
             budget = None, deadline = JNull,
             items = [\<lparr>name = ''Laptops'', quantity = 0, specifications = ''''\<rparr>,
                      \<lparr>name = ''Monitors'', quantity = 1, specifications = ''''\<rparr>]\<rparr>"
  have h1: "extract_rfp_from_text ?env (Some ''key'')
              (\<lambda>_. RemoteReturns (Response (Some ''{}''))) ''Buy things'' = Inr ?r"
    by (rule two_items_extracted)
  have h2: "success ?r" by simp
  have h3: "RFP_create ?db (title ?r) ''Buy things'' (parse_budget (budget ?r)) DRAFT
              empty_store = (Inr ?rfp, ?s1)"
    by (simp add: RFP_create_def refusing_item_def empty_store_def parse_budget_def Let_def
        numeral_2_eq_2)
  have h4: "create_items ?db ?env (rfp_id ?rfp) (items ?r) ?s1 =
              (Inl (PyExc ''DataError'' ''value too long''), ?s2)"
    by (simp add: parse_quantity_of_int RFPItem_create_def refusing_item_def empty_store_def
        Let_def numeral_2_eq_2)
  have h5: "list_all (\<lambda>r. rfp_id r < next_rfp_id empty_store) (rfps empty_store)"
    by (simp add: empty_store_def)
  have h6: "list_all (\<lambda>i. item_rfp i < next_rfp_id empty_store) (rfp_items empty_store)"
    by (simp add: empty_store_def)
  show ?thesis
    using h4 create_rfp_all_or_nothing [OF h1 h2 h3 h4 h5 h6]
    by (simp add: error_response_def)
qed

section \<open>The upsert of a proposal\<close>

lemma latest_Nil_iff: "latest xs = None \<longleftrightarrow> xs = []"
  by (induction xs) (auto split: option.splits)

lemma latest_in: "latest xs = Some r \<Longrightarrow> r \<in> set xs"
  by (induction xs arbitrary: r) (auto split: option.splits if_splits)

lemma matches_pair: "matches rfp vendor r \<longleftrightarrow> pair_of r = (rfp, vendor)"
  by (auto simp: matches_def pair_of_def)

lemma distinct_filter_key:
  "distinct (map f xs) \<Longrightarrow> x \<in> set xs \<Longrightarrow> filter (\<lambda>y. f y = f x) xs = [x]"
proof (induction xs)
  case Nil
  then show ?case by simp
next
  case (Cons a xs)
  show ?case
  proof (cases "x = a")
    case True
    have "filter (\<lambda>y. f y = f a) xs = []"
      using Cons.prems(1) by (force simp: filter_empty_conv image_iff)
    with True show ?thesis by simp
  next
    case False
    with Cons.prems have "x \<in> set xs" and "f a \<noteq> f x" by auto
    with Cons show ?thesis by simp
  qed
qed

lemma filter_first_Some:
  assumes "unique_pairs s" and "filter_first s rfp vendor = Some r"
  shows "r \<in> set (proposals s) \<and> matches rfp vendor r \<and>
         filter (matches rfp vendor) (proposals s) = [r]"
proof -
  have "r \<in> set (filter (matches rfp vendor) (proposals s))"
    using assms(2) latest_in [of "filter (matches rfp vendor) (proposals s)" r]
    by (simp only: filter_first_def)
  then have in_s: "r \<in> set (proposals s)" and m: "matches rfp vendor r" by simp_all
  have "filter (\<lambda>y. pair_of y = pair_of r) (proposals s) = [r]"
    using assms(1) in_s by (intro distinct_filter_key) (simp_all add: unique_pairs_def)
  moreover have "matches rfp vendor = (\<lambda>y. pair_of y = pair_of r)"
    using m by (auto simp: matches_pair)
  ultimately show ?thesis using in_s m by simp
qed

lemma filter_first_None:
  "filter_first s rfp vendor = None \<longleftrightarrow> \<not> list_ex (matches rfp vendor) (proposals s)"
  by (simp add: filter_first_def latest_Nil_iff filter_empty_conv list_ex_iff)

lemma filter_first_single:
  "filter (matches rfp vendor) (proposals s) = [r] \<Longrightarrow> filter_first s rfp vendor = Some r"
  by (simp add: filter_first_def)

text \<open>The fields that the assignments of the update path do not touch.\<close>

lemma assign_extracted_frame:
  "proposal_id (assign_extracted p e b) = proposal_id p \<and>
   proposal_rfp (assign_extracted p e b) = proposal_rfp p \<and>
   proposal_vendor (assign_extracted p e b) = proposal_vendor p \<and>
   submitted_at (assign_extracted p e b) = submitted_at p \<and>
   updated_at (assign_extracted p e b) = updated_at p"
  by (simp add: assign_extracted_def split: option.splits)

lemma save_rows:
  assumes d: "distinct (map proposal_id ps)" and x: "x \<in> set ps"
    and i: "proposal_id row = proposal_id x" and p: "pair_of row = pair_of x"
  shows "map proposal_id (map (replace_row row) ps) = map proposal_id ps"
    and "map pair_of (map (replace_row row) ps) = map pair_of ps"
    and "filter (\<lambda>y. pair_of y = pair_of x) (map (replace_row row) ps) =
           map (replace_row row) (filter (\<lambda>y. pair_of y = pair_of x) ps)"
proof -
  have inj: "inj_on proposal_id (set ps)" using d by (simp add: distinct_map)
  have same: "replace_row row r = (if r = x then row else r)" if "r \<in> set ps" for r
    using that x i inj by (auto simp: replace_row_def dest: inj_onD)
  show "map proposal_id (map (replace_row row) ps) = map proposal_id ps"
    by (simp add: replace_row_def)
  have pp: "pair_of (replace_row row r) = pair_of r" if "r \<in> set ps" for r
    using same [OF that] p by simp
  then show "map pair_of (map (replace_row row) ps) = map pair_of ps" by simp
  show "filter (\<lambda>y. pair_of y = pair_of x) (map (replace_row row) ps) =
          map (replace_row row) (filter (\<lambda>y. pair_of y = pair_of x) ps)"
    using pp by (simp add: filter_map comp_def cong: filter_cong)
qed


lemma upsert_update_path:
  assumes "filter_first s rfp vendor = Some existing"
  shows "upsert_proposal db rfp vendor e body now s =
           (case reject_proposal db ((assign_extracted existing e body)\<lparr>updated_at := now\<rparr>) of
              Some x \<Rightarrow> (Inl x, s)
            | None \<Rightarrow>
                (Inr ((assign_extracted existing e body)\<lparr>updated_at := now\<rparr>),
                 s\<lparr>proposals :=
                     map (replace_row ((assign_extracted existing e body)\<lparr>updated_at := now\<rparr>))
                       (proposals s)\<rparr>))"
  using assms
  by (simp add: upsert_proposal_def atomic_def upsert_block_def Proposal_save_def Let_def
      split: option.splits)

lemma upsert_create_path:
  assumes "filter_first s rfp vendor = None"
  shows "upsert_proposal db rfp vendor e body now s =
           (let row = \<lparr>proposal_id = next_proposal_id s, proposal_rfp = rfp,
                        proposal_vendor = vendor, raw_email_content = body,
                        proposal_price = new_price (price e),
                        proposal_payment_terms = py_or (payment_terms e) (JStr ''''),
                        proposal_warranty = py_or (warranty e) (JStr ''''),
                        submitted_at = now, updated_at = now\<rparr>
            in case reject_proposal db row of
                 Some x \<Rightarrow> (Inl x, s)
               | None \<Rightarrow> (Inr row, s\<lparr>proposals := proposals s @ [row],
                                       next_proposal_id := Suc (next_proposal_id s)\<rparr>))"
proof -
  have "list_ex (matches rfp vendor) (proposals s) = False"
    using assms by (simp only: filter_first_None)
  with assms show ?thesis
    by (simp add: upsert_proposal_def atomic_def upsert_block_def Proposal_create_def Let_def
        split: option.splits)
qed

lemma upsert_failure_unchanged:
  "upsert_proposal db rfp vendor e body now s = (Inl x, s') \<Longrightarrow> s' = s"
  by (auto simp: upsert_proposal_def atomic_def split: prod.splits sum.splits)

lemma upsert_success:
  assumes u: "unique_pairs s" and k: "keys_ok s"
    and run: "upsert_proposal db rfp vendor e body now s = (Inr p, s')"
  shows "unique_pairs s' \<and> keys_ok s' \<and> filter (matches rfp vendor) (proposals s') = [p]"
proof (cases "filter_first s rfp vendor")
  case None
  define row where "row = \<lparr>proposal_id = next_proposal_id s, proposal_rfp = rfp,
                        proposal_vendor = vendor, raw_email_content = body,
                        proposal_price = new_price (price e),
                        proposal_payment_terms = py_or (payment_terms e) (JStr ''''),
                        proposal_warranty = py_or (warranty e) (JStr ''''),
                        submitted_at = now, updated_at = now\<rparr>"
  from run have p: "p = row"
    and s': "s' = s\<lparr>proposals := proposals s @ [row],
                     next_proposal_id := Suc (next_proposal_id s)\<rparr>"
    unfolding upsert_create_path [OF None] row_def [symmetric] Let_def
    by (auto split: option.splits)
  have nomatch: "\<forall>r \<in> set (proposals s). \<not> matches rfp vendor r"
    using None by (simp add: filter_first_None list_ex_iff)
  have m: "matches rfp vendor row" by (simp add: row_def matches_def)
  have pr: "pair_of row = (rfp, vendor)" by (simp add: row_def pair_of_def)
  have "pair_of row \<notin> set (map pair_of (proposals s))"
    using nomatch by (auto simp: pr matches_pair)
  then have 1: "unique_pairs s'" using u by (simp add: s' unique_pairs_def)
  have "proposal_id row \<notin> set (map proposal_id (proposals s))"
    using k by (auto simp: keys_ok_def list_all_iff row_def)
  then have 2: "keys_ok s'"
    using k by (auto simp: s' keys_ok_def list_all_iff row_def)
  have 3: "filter (matches rfp vendor) (proposals s') = [p]"
    using nomatch m by (simp add: s' p filter_empty_conv)
  from 1 2 3 show ?thesis by simp
next
  case (Some existing)
  define row where "row = (assign_extracted existing e body)\<lparr>updated_at := now\<rparr>"
  from run have p: "p = row"
    and s': "s' = s\<lparr>proposals := map (replace_row row) (proposals s)\<rparr>"
    unfolding upsert_update_path [OF Some] row_def [symmetric]
    by (auto split: option.splits)
  have ex: "existing \<in> set (proposals s)" "matches rfp vendor existing"
    "filter (matches rfp vendor) (proposals s) = [existing]"
    using filter_first_Some [OF u Some] by simp_all
  have d: "distinct (map proposal_id (proposals s))" using k by (simp add: keys_ok_def)
  have i: "proposal_id row = proposal_id existing"
    by (simp add: row_def assign_extracted_frame)
  have pp: "pair_of row = pair_of existing"
    by (simp add: row_def pair_of_def assign_extracted_frame)
  note sr = save_rows [OF d ex(1) i pp]
  have pm: "proposals s' = map (replace_row row) (proposals s)" by (simp add: s')
  have 1: "unique_pairs s'"
    using u unfolding unique_pairs_def pm sr(2) .
  have ids: "map proposal_id (proposals s') = map proposal_id (proposals s)"
    unfolding pm by (rule sr(1))
  have idset: "proposal_id ` set (proposals s') = proposal_id ` set (proposals s)"
    using arg_cong [OF ids, of set] by (simp only: set_map)
  have nx: "next_proposal_id s' = next_proposal_id s" by (simp add: s')
  have below: "list_all (\<lambda>r. proposal_id r < next_proposal_id s') (proposals s')"
    unfolding list_all_iff
  proof
    fix r assume "r \<in> set (proposals s')"
    then have "proposal_id r \<in> proposal_id ` set (proposals s)"
      unfolding idset [symmetric] by (rule imageI)
    then show "proposal_id r < next_proposal_id s'"
      using k unfolding keys_ok_def list_all_iff nx by auto
  qed
  have 2: "keys_ok s'"
    unfolding keys_ok_def ids using d below by simp
  have meq: "matches rfp vendor = (\<lambda>y. pair_of y = pair_of existing)"
    using ex(2) by (auto simp: matches_pair)
  have "filter (matches rfp vendor) (proposals s') =
          map (replace_row row) (filter (matches rfp vendor) (proposals s))"
    unfolding meq s' using sr(3) by simp
  also have "\<dots> = [row]" by (simp add: ex(3) replace_row_def i)
  finally have 3: "filter (matches rfp vendor) (proposals s') = [p]" by (simp add: p)
  from 1 2 3 show ?thesis by simp
qed

lemma upsert_preserves_invariant:
  assumes "unique_pairs s" and "keys_ok s"
    and "upsert_proposal db rfp vendor e body now s = (res, s')"
  shows "unique_pairs s' \<and> keys_ok s'"
proof (cases res)
  case (Inl x)
  with assms show ?thesis using upsert_failure_unchanged by blast
next
  case (Inr p)
  with assms show ?thesis using upsert_success by blast
qed


lemma first_run_result:
  "upsert_proposal accept_all 1 1 first_run ''first mail'' 10 empty_store =
     (Inr first_row, empty_store\<lparr>proposals := [first_row], next_proposal_id := 2\<rparr>)"
proof -
  have "filter_first empty_store 1 1 = None"
    by (simp add: filter_first_def empty_store_def)
  then show ?thesis
    by (simp add: upsert_create_path Let_def accept_all_def first_run_def first_row_def
        new_price_def py_or_def empty_store_def numeral_2_eq_2)
qed

lemma after_first_eq:
  "after_first = empty_store\<lparr>proposals := [first_row], next_proposal_id := 2\<rparr>"
  by (simp only: after_first_def first_run_result snd_conv)

lemma second_run_result:
  "upsert_proposal accept_all 1 1 second_run ''second mail'' 20 after_first =
     (Inr second_row, after_first\<lparr>proposals := [second_row]\<rparr>)"
proof -
  have "filter_first after_first 1 1 = Some first_row"
    by (simp add: filter_first_def after_first_eq empty_store_def matches_def first_row_def)
  then show ?thesis
    by (simp add: upsert_update_path accept_all_def after_first_eq empty_store_def
        assign_extracted_def second_run_def first_row_def second_row_def py_or_def
        replace_row_def)
qed

text \<open>
  Two runs for the pair (1, 1) on the empty store: the first extracts the price 100,
  the second extracts no price.  The one row that exists afterwards has the second
  run's payment terms and mail, and still the first run's price: the row does not
  reflect the second run's extracted price, which is null.
\<close>

theorem second_run_price_not_reflected:
  "proposals after_second =
     [\<lparr>proposal_id = 1, proposal_rfp = 1, proposal_vendor = 1,
       raw_email_content = ''second mail'',
       proposal_price = Some (DecimalStr (Finite 100)),
       proposal_payment_terms = JStr ''Net 60'', proposal_warranty = JStr '''',
       submitted_at = 10, updated_at = 20\<rparr>] \<and>
   price second_run = None \<and>
   map proposal_price (proposals after_second) \<noteq> [new_price (price second_run)]"
proof -
  have e: "after_second = after_first\<lparr>proposals := [second_row]\<rparr>"
    by (simp only: after_second_def second_run_result snd_conv)
  have "proposals after_second = [second_row]" unfolding e by simp
  then show ?thesis by (simp add: second_row_def second_run_def new_price_def)
qed

text \<open>
  Claim C1, as the code has it.  Every upsert, whether it completes or raises, keeps the
  uniqueness of (RFP, Vendor) pairs and of primary keys.  After two runs in sequence
  for the same pair whose upserts both complete, exactly one row exists for the pair;
  it is the first run's row, updated in place (same primary key, same submission time,
  no row added by the second run); it has the second run's mail, the second run's
  payment terms and warranty (the empty string for a null or otherwise false value),
  and the second run's price when the second run extracted one, the price it had before
  otherwise.
\<close>

theorem two_runs_one_row:
  assumes u: "unique_pairs s" and k: "keys_ok s"
    and run1: "upsert_proposal db rfp vendor e1 body1 now1 s = (res1, s1)"
    and run2: "upsert_proposal db rfp vendor e2 body2 now2 s1 = (res2, s2)"
  shows "unique_pairs s1 \<and> keys_ok s1 \<and> unique_pairs s2 \<and> keys_ok s2 \<and>
         (\<forall>p1 p2. res1 = Inr p1 \<and> res2 = Inr p2 \<longrightarrow>
            filter (matches rfp vendor) (proposals s2) = [p2] \<and>
            length (proposals s2) = length (proposals s1) \<and>
            proposal_id p2 = proposal_id p1 \<and>
            submitted_at p2 = submitted_at p1 \<and>
            raw_email_content p2 = body2 \<and>
            proposal_payment_terms p2 = py_or (payment_terms e2) (JStr '''') \<and>
            proposal_warranty p2 = py_or (warranty e2) (JStr '''') \<and>
            proposal_price p2 =
              (case price e2 of Some f \<Rightarrow> Some (DecimalStr f)
                              | None \<Rightarrow> proposal_price p1))"
proof -
  have i1: "unique_pairs s1 \<and> keys_ok s1"
    using upsert_preserves_invariant [OF u k run1] .
  then have i2: "unique_pairs s2 \<and> keys_ok s2"
    using upsert_preserves_invariant [OF _ _ run2] by blast
  have "filter (matches rfp vendor) (proposals s2) = [p2] \<and>
        length (proposals s2) = length (proposals s1) \<and>
        proposal_id p2 = proposal_id p1 \<and>
        submitted_at p2 = submitted_at p1 \<and>
        raw_email_content p2 = body2 \<and>
        proposal_payment_terms p2 = py_or (payment_terms e2) (JStr '''') \<and>
        proposal_warranty p2 = py_or (warranty e2) (JStr '''') \<and>
        proposal_price p2 =
          (case price e2 of Some f \<Rightarrow> Some (DecimalStr f) | None \<Rightarrow> proposal_price p1)"
    if r1: "res1 = Inr p1" and r2: "res2 = Inr p2" for p1 p2
  proof -
    have one: "filter (matches rfp vendor) (proposals s1) = [p1]"
      using upsert_success [OF u k run1 [unfolded r1]] by simp
    have ff: "filter_first s1 rfp vendor = Some p1"
      using one by (rule filter_first_single)
    define row where "row = (assign_extracted p1 e2 body2)\<lparr>updated_at := now2\<rparr>"
    from run2 have p2: "p2 = row"
      and s2: "s2 = s1\<lparr>proposals := map (replace_row row) (proposals s1)\<rparr>"
      unfolding r2 upsert_update_path [OF ff] row_def [symmetric]
      by (auto split: option.splits)
    have a: "filter (matches rfp vendor) (proposals s2) = [p2]"
      using i1 upsert_success [OF _ _ run2 [unfolded r2]] by simp
    have b: "length (proposals s2) = length (proposals s1)" by (simp add: s2)
    have c: "proposal_id p2 = proposal_id p1 \<and> submitted_at p2 = submitted_at p1"
      by (simp add: p2 row_def assign_extracted_frame)
    have d: "raw_email_content p2 = body2 \<and>
             proposal_payment_terms p2 = py_or (payment_terms e2) (JStr '''') \<and>
             proposal_warranty p2 = py_or (warranty e2) (JStr '''') \<and>
             proposal_price p2 =
               (case price e2 of Some f \<Rightarrow> Some (DecimalStr f) | None \<Rightarrow> proposal_price p1)"
      by (simp add: p2 row_def assign_extracted_def split: option.splits)
    from a b c d show ?thesis by simp
  qed
  with i1 i2 show ?thesis by blast
qed

theorem two_runs_one_row_witness:
  "unique_pairs empty_store \<and> keys_ok empty_store \<and>
   upsert_proposal accept_all 1 1 first_run ''first mail'' 10 empty_store =
     (Inr first_row, after_first) \<and>
   upsert_proposal accept_all 1 1 second_run ''second mail'' 20 after_first =
     (Inr second_row, after_second) \<and>
   filter (matches 1 1) (proposals after_second) = [second_row] \<and>
   proposal_price second_row = proposal_price first_row \<and>
   unique_pairs after_second \<and> keys_ok after_second"
proof -
  have h1: "unique_pairs empty_store" by (simp add: unique_pairs_def empty_store_def)
  have h2: "keys_ok empty_store" by (simp add: keys_ok_def empty_store_def)
  have h3: "upsert_proposal accept_all 1 1 first_run ''first mail'' 10 empty_store =
              (Inr first_row, after_first)"
    by (simp only: first_run_result after_first_eq)
  have h4: "upsert_proposal accept_all 1 1 second_run ''second mail'' 20 after_first =
              (Inr second_row, after_second)"
    by (simp only: after_second_def second_run_result snd_conv)
  have pr: "price second_run = None" by (simp add: second_run_def)
  show ?thesis
    using h1 h2 h3 h4 pr two_runs_one_row [OF h1 h2 h3 h4]
    by simp
qed



end
